theory Spec2Isabelle
  imports Complex_Main "HOL-Library.Sublist"
begin

section \<open>JavaScript values used by the component\<close>

text \<open>
  A JavaScript number is a binary64 value: a finite value, which denotes a real number,
  or one of NaN, Infinity and -Infinity. The comparisons of the language are exact on the
  values denoted, so they are defined here; the arithmetic that rounds (division,
  multiplication, \<^verbatim>\<open>toFixed\<close>, \<^verbatim>\<open>Number\<close>) belongs to the runtime and is a parameter of
  the callbacks that use it (record \<open>js_runtime\<close> below), and so is the reading of a JSON
  text (\<^verbatim>\<open>JSON.parse\<close>, which gives no value for a text that is not JSON).
\<close>

datatype number = Finite real | NaN | PosInfinity | NegInfinity

text \<open>\<^verbatim>\<open>a < b\<close> on numbers; \<^verbatim>\<open>a > b\<close> is \<open>num_less b a\<close>. Every comparison with NaN is false.\<close>

fun num_less :: "number \<Rightarrow> number \<Rightarrow> bool" where
  "num_less (Finite a) (Finite b) = (a < b)"
| "num_less (Finite a) PosInfinity = True"
| "num_less NegInfinity (Finite b) = True"
| "num_less NegInfinity PosInfinity = True"
| "num_less _ _ = False"

text \<open>The values \<^verbatim>\<open>response.json()\<close> can resolve to.\<close>

datatype json =
    JNull
  | JBool bool
  | JNum number
  | JStr string
  | JArr "json list"
  | JObj "(string \<times> json) list"

record js_runtime =
  num_div :: "number \<Rightarrow> number \<Rightarrow> number"
  num_mul :: "number \<Rightarrow> number \<Rightarrow> number"
  toFixed :: "number \<Rightarrow> nat \<Rightarrow> string"
  Number :: "string \<Rightarrow> number"
  JSON_parse :: "string \<Rightarrow> json option"

text \<open>
  \<^verbatim>\<open>data.mediaId\<close>: reading a property of \<^verbatim>\<open>null\<close> throws a TypeError (\<open>Inl\<close>); on any other
  value the read gives the member of that name, or \<^verbatim>\<open>undefined\<close> (\<open>None\<close>). In a parsed
  object the last of several equal keys is the one kept.
\<close>

datatype js_error = TypeError

fun get_property :: "json \<Rightarrow> string \<Rightarrow> js_error + json option" where
  "get_property JNull k = Inl TypeError"
| "get_property (JObj kvs) k = Inr (map_of (rev kvs) k)"
| "get_property _ k = Inr None"

fun truthy :: "json \<Rightarrow> bool" where
  "truthy JNull = False"
| "truthy (JBool b) = b"
| "truthy (JNum (Finite r)) = (r \<noteq> 0)"
| "truthy (JNum NaN) = False"
| "truthy (JNum _) = True"
| "truthy (JStr s) = (s \<noteq> [])"
| "truthy (JArr _) = True"
| "truthy (JObj _) = True"

text \<open>\<^verbatim>\<open>v || ""\<close>, where \<open>v\<close> may be \<^verbatim>\<open>undefined\<close>.\<close>

definition or_empty :: "json option \<Rightarrow> json" where
  "or_empty v = (case v of None \<Rightarrow> JStr [] | Some j \<Rightarrow> (if truthy j then j else JStr []))"

subsection \<open>Strings\<close>

text \<open>
  A string is the sequence of the bytes of its UTF-8 encoding. \<^verbatim>\<open>encodeURIComponent\<close> keeps
  the unreserved characters and writes every other byte as \<^verbatim>\<open>%XX\<close>. (A string with a lone
  surrogate, on which it throws, has no UTF-8 encoding and is not a value of this type.)
\<close>

definition uri_unreserved :: "char \<Rightarrow> bool" where
  "uri_unreserved c \<longleftrightarrow>
     c \<in> set (''ABCDEFGHIJKLMNOPQRSTUVWXYZabcdefghijklmnopqrstuvwxyz0123456789-_.!~*()''
              @ [CHR 0x27])"

definition hex_digit :: "nat \<Rightarrow> char" where
  "hex_digit n = ''0123456789ABCDEF'' ! (n mod 16)"

definition percent_encode :: "char \<Rightarrow> string" where
  "percent_encode c =
     [CHR ''%'', hex_digit ((of_char c :: nat) div 16), hex_digit ((of_char c :: nat) mod 16)]"

definition encodeURIComponent :: "string \<Rightarrow> string" where
  "encodeURIComponent s =
     concat (map (\<lambda>c. if uri_unreserved c then [c] else percent_encode c) s)"

text \<open>The inverse the receiving server applies to a query parameter.\<close>

definition hex_value :: "char \<Rightarrow> nat" where
  "hex_value c =
     (let n = (of_char c :: nat) in
      if 48 \<le> n \<and> n \<le> 57 then n - 48
      else if 65 \<le> n \<and> n \<le> 70 then n - 55
      else if 97 \<le> n \<and> n \<le> 102 then n - 87
      else 0)"

fun decodeURIComponent :: "string \<Rightarrow> string" where
  "decodeURIComponent (c # h # l # rest) =
     (if c = CHR ''%'' then char_of (hex_value h * 16 + hex_value l) # decodeURIComponent rest
      else c # decodeURIComponent (h # l # rest))"
| "decodeURIComponent (c # rest) = c # decodeURIComponent rest"
| "decodeURIComponent [] = []"

text \<open>Decimal digits of a natural number, as a template literal prints it.\<close>

fun string_of_nat :: "nat \<Rightarrow> string" where
  "string_of_nat n =
     (if n < 10 then [''0123456789'' ! n]
      else string_of_nat (n div 10) @ [''0123456789'' ! (n mod 10)])"

declare string_of_nat.simps [simp del]

section \<open>The component (App.tsx)\<close>

text \<open>
  The module computes \<open>timestamp\<close> once, when it is loaded, from \<^verbatim>\<open>new Date()\<close>; the fields
  are printed without padding and the month is counted from 1.
\<close>

record Date =
  getFullYear :: nat
  getMonth :: nat
  getDate :: nat
  getHours :: nat
  getMinutes :: nat
  getSeconds :: nat

definition timestamp :: "Date \<Rightarrow> string" where
  "timestamp date =
     string_of_nat (getFullYear date) @ ''-'' @ string_of_nat (getMonth date + 1) @ ''-''
     @ string_of_nat (getDate date) @ ''_'' @ string_of_nat (getHours date) @ ''-''
     @ string_of_nat (getMinutes date) @ ''-'' @ string_of_nat (getSeconds date)"

record File =
  name :: string
  type :: string
  size_bytes :: number

text \<open>
  The options \<^verbatim>\<open>handleUpload\<close> gives to \<^verbatim>\<open>new tus.Upload(file, {...})\<close>. The three callbacks
  are closures of the component over the file of that call; they are the functions
  \<open>onError\<close>, \<open>onProgress\<close> and \<open>onSuccess\<close> below, run for an instance with the file it holds.
  \<open>headers\<close> is the option of the library for headers of its requests; the component does
  not give it (\<open>None\<close>).
\<close>

record UploadOptions =
  endpoint :: string
  retryDelays :: "int list"
  chunkSize :: int
  metadata :: "(string \<times> string) list"
  headers :: "(string \<times> string) list option"

record Upload =
  upload_file :: File
  options :: UploadOptions

text \<open>
  What a handler does besides setting state: the calls that leave the component.
  \<^verbatim>\<open>fetch\<close> takes a URL and, when the caller gives one, a second argument with the method,
  the headers and the body of the request.
\<close>

record RequestInit =
  init_method :: "string option"
  init_headers :: "(string \<times> string) list"
  init_body :: "string option"

datatype effect =
    ConsoleLog "string list"
  | ConsoleError "string list"
  | TusNew Upload
  | TusStart Upload
  | TusAbort Upload
  | Fetch string "RequestInit option"

record app_state =
  "file" :: "File option"
  progress :: number
  uploadStatus :: string
  mediaId :: json
  upload :: "Upload option"

definition initial_state :: app_state where
  "initial_state =
     \<lparr>file = None, progress = Finite 0, uploadStatus = [], mediaId = JStr [], upload = None\<rparr>"

text \<open>\<^verbatim>\<open>e.target.files\<close> is \<^verbatim>\<open>null\<close> or a list of files; \<^verbatim>\<open>files[0]\<close> of an empty list is undefined.\<close>

definition handleFileChange :: "File list option \<Rightarrow> app_state \<Rightarrow> app_state \<times> effect list" where
  "handleFileChange files s =
     (case files of
        Some (f # _) \<Rightarrow>
          (s\<lparr>file := Some f, uploadStatus := ''File selected'', progress := Finite 0\<rparr>, [])
      | _ \<Rightarrow> (s, []))"

definition upload_options :: "string \<Rightarrow> File \<Rightarrow> UploadOptions" where
  "upload_options ts f =
     \<lparr>endpoint = ''http://localhost:3001/api/upload'',
      retryDelays = [0, 3000, 5000, 10000, 20000],
      chunkSize = 50 * 1024 * 1024,
      metadata = [(''name'', ts @ '' - '' @ name f),
                  (''type'', type f),
                  (''allowedorigins'', ''102.223.38.190'')],
      headers = None\<rparr>"

definition handleUpload :: "string \<Rightarrow> app_state \<Rightarrow> app_state \<times> effect list" where
  "handleUpload ts s =
     (case file s of
        None \<Rightarrow> (s\<lparr>uploadStatus := ''Please select a file first''\<rparr>, [])
      | Some f \<Rightarrow>
          (let tusUpload = \<lparr>upload_file = f, options = upload_options ts f\<rparr> in
           (s\<lparr>uploadStatus := ''Starting upload...'', upload := Some tusUpload\<rparr>,
            [ConsoleLog [name f, ''FILENAME >>>>>>>>>>>>''],
             TusNew tusUpload,
             TusStart tusUpload])))"

definition onError :: "string \<Rightarrow> app_state \<Rightarrow> app_state \<times> effect list" where
  "onError message s =
     (s\<lparr>uploadStatus := ''Upload failed: '' @ message\<rparr>,
      [ConsoleError [''Upload error:'', message]])"

definition onProgress ::
  "js_runtime \<Rightarrow> number \<Rightarrow> number \<Rightarrow> app_state \<Rightarrow> app_state \<times> effect list" where
  "onProgress rt bytesUploaded bytesTotal s =
     (let percentage =
            toFixed rt (num_mul rt (num_div rt bytesUploaded bytesTotal) (Finite 100)) 2 in
      (s\<lparr>progress := Number rt percentage,
         uploadStatus := ''Uploading: '' @ percentage @ ''%''\<rparr>,
       [ConsoleLog [''percentage: '', percentage]]))"

definition status_url :: "string \<Rightarrow> File \<Rightarrow> string" where
  "status_url ts f =
     ''/api/upload/status?filename='' @ encodeURIComponent (ts @ '' - '' @ name f)"

definition onSuccess :: "string \<Rightarrow> File \<Rightarrow> app_state \<Rightarrow> app_state \<times> effect list" where
  "onSuccess ts f s =
     (s\<lparr>uploadStatus := ''Upload complete! Video is now processing.''\<rparr>,
      [Fetch (status_url ts f) None])"

text \<open>
  How the promise chain of the status request ends: the request itself is rejected, the
  body is not JSON, or the body parses to a value.
\<close>

datatype fetch_outcome = FetchRejected string | JsonRejected string | JsonParsed json

definition fetch_settled :: "fetch_outcome \<Rightarrow> app_state \<Rightarrow> app_state \<times> effect list" where
  "fetch_settled out s =
     (case out of
        FetchRejected err \<Rightarrow> (s, [ConsoleError [''Error fetching media ID:'', err]])
      | JsonRejected err \<Rightarrow> (s, [ConsoleError [''Error fetching media ID:'', err]])
      | JsonParsed data \<Rightarrow>
          (case get_property data ''mediaId'' of
             Inl TypeError \<Rightarrow> (s, [ConsoleError [''Error fetching media ID:'', ''TypeError'']])
           | Inr v \<Rightarrow> (s\<lparr>mediaId := or_empty v\<rparr>, [])))"

definition handleCancel :: "app_state \<Rightarrow> app_state \<times> effect list" where
  "handleCancel s =
     (case upload s of
        Some u \<Rightarrow> (s\<lparr>uploadStatus := ''Upload cancelled''\<rparr>, [TusAbort u])
      | None \<Rightarrow> (s, []))"

text \<open>
  The cleanup of the effect that depends on \<open>upload\<close>: React runs it with the instance of the
  render it belongs to, when that instance is replaced and when the component unmounts.
\<close>

definition cleanup :: "Upload option \<Rightarrow> effect list" where
  "cleanup u = (case u of Some v \<Rightarrow> [TusAbort v] | None \<Rightarrow> [])"

subsection \<open>What the component renders\<close>

text \<open>
  The parts of the returned element that depend on the state: the \<^verbatim>\<open>disabled\<close> attribute of
  the Upload button, and which of the conditional blocks are present (the file-info block
  with the name and the type of the file, the progress bar with the progress, the
  media-info block with the media id).
\<close>

record view =
  upload_disabled :: bool
  cancel_rendered :: bool
  file_info :: "(string \<times> string) option"
  progress_bar :: "number option"
  status_message :: string
  media_info :: "json option"

definition render :: "app_state \<Rightarrow> view" where
  "render s =
     \<lparr>upload_disabled =
        (file s = None \<or> (num_less (Finite 0) (progress s) \<and> num_less (progress s) (Finite 100))),
      cancel_rendered =
        (num_less (Finite 0) (progress s) \<and> num_less (progress s) (Finite 100)),
      file_info = (case file s of None \<Rightarrow> None | Some f \<Rightarrow> Some (name f, type f)),
      progress_bar = (if num_less (Finite 0) (progress s) then Some (progress s) else None),
      status_message = uploadStatus s,
      media_info = (if truthy (mediaId s) then Some (mediaId s) else None)\<rparr>"

text \<open>
  React renders strings, numbers, booleans and \<^verbatim>\<open>null\<close> as children, and arrays of such;
  an object as a child makes it throw while rendering, and with no error boundary the
  whole tree is removed. The only child that can be an object is the media id, shown when
  it is truthy. \<open>render\<close> is the element the function returns; \<open>render_result\<close> is what
  becomes of it.
\<close>

datatype react_error = ObjectAsChild

fun valid_child :: "json \<Rightarrow> bool" where
  "valid_child (JObj kvs) = False"
| "valid_child (JArr xs) = (\<forall>x \<in> set xs. valid_child x)"
| "valid_child _ = True"

definition render_result :: "app_state \<Rightarrow> react_error + view" where
  "render_result s =
     (if truthy (mediaId s) \<and> \<not> valid_child (mediaId s) then Inl ObjectAsChild
      else Inr (render s))"

subsection \<open>The component as a transition system\<close>

text \<open>
  The events that reach the component: the three user controls, the callbacks the library
  runs for an instance the component created (named by its position in \<open>uploads\<close>), and
  the end of a status request that is in flight. A click on a control that is disabled or
  not rendered reaches no handler, and so does a callback of an instance that does not
  exist or the end of a request that was never made. Each event is handled in the render
  that follows the previous one, so a handler reads the state the previous event left. In
  which order the library runs its callbacks is the library's matter: every order is a run.
  The transitions are those of the mounted component: when a render throws, the tree is
  removed, \<open>unmount\<close> gives what the cleanup does, and no further event reaches a handler.
\<close>

datatype event =
    ChangeFile "File list option"
  | ClickUpload
  | ClickCancel
  | TusError nat string
  | TusProgress nat number number
  | TusSuccess nat
  | FetchSettled fetch_outcome

record world =
  app :: app_state
  uploads :: "Upload list"
  pending :: nat

definition initial_world :: world where
  "initial_world = \<lparr>app = initial_state, uploads = [], pending = 0\<rparr>"

fun created :: "effect list \<Rightarrow> Upload list" where
  "created [] = []"
| "created (TusNew u # es) = u # created es"
| "created (_ # es) = created es"

fun fetches :: "effect list \<Rightarrow> nat" where
  "fetches [] = 0"
| "fetches (Fetch _ _ # es) = Suc (fetches es)"
| "fetches (_ # es) = fetches es"

text \<open>
  After a handler has run, React renders again. A handler that stored a new instance with
  \<^verbatim>\<open>setUpload\<close> changed the dependency of the effect, so the cleanup of the previous render
  runs with the instance that render had.
\<close>

definition react :: "world \<Rightarrow> app_state \<times> effect list \<Rightarrow> world \<times> effect list" where
  "react w r =
     (let es = snd r @ (if created (snd r) = [] then [] else cleanup (upload (app w))) in
      (\<lparr>app = fst r, uploads = uploads w @ created (snd r), pending = pending w + fetches (snd r)\<rparr>,
       es))"

definition step :: "js_runtime \<Rightarrow> string \<Rightarrow> event \<Rightarrow> world \<Rightarrow> world \<times> effect list" where
  "step rt ts ev w =
     (case ev of
        ChangeFile files \<Rightarrow> react w (handleFileChange files (app w))
      | ClickUpload \<Rightarrow>
          (if upload_disabled (render (app w)) then (w, [])
           else react w (handleUpload ts (app w)))
      | ClickCancel \<Rightarrow>
          (if cancel_rendered (render (app w)) then react w (handleCancel (app w))
           else (w, []))
      | TusError i message \<Rightarrow>
          (if i < length (uploads w) then react w (onError message (app w)) else (w, []))
      | TusProgress i bytesUploaded bytesTotal \<Rightarrow>
          (if i < length (uploads w) then react w (onProgress rt bytesUploaded bytesTotal (app w))
           else (w, []))
      | TusSuccess i \<Rightarrow>
          (if i < length (uploads w)
           then react w (onSuccess ts (upload_file (uploads w ! i)) (app w))
           else (w, []))
      | FetchSettled out \<Rightarrow>
          (if 0 < pending w
           then react (w\<lparr>pending := pending w - 1\<rparr>) (fetch_settled out (app w))
           else (w, [])))"

fun run :: "js_runtime \<Rightarrow> string \<Rightarrow> event list \<Rightarrow> world \<Rightarrow> world \<times> effect list" where
  "run rt ts [] w = (w, [])"
| "run rt ts (ev # evs) w =
     (let r = step rt ts ev w; r' = run rt ts evs (fst r) in (fst r', snd r @ snd r'))"

text \<open>Unmounting the component runs the cleanup of the last render.\<close>

definition unmount :: "world \<Rightarrow> effect list" where
  "unmount w = cleanup (upload (app w))"

section \<open>The proxy server described beside the component\<close>

text \<open>
  The Express application of the text: \<^verbatim>\<open>app.use(cors())\<close>, then
  \<^verbatim>\<open>app.use('/api/upload', tusProxy)\<close>, where \<open>tusProxy\<close> is \<^verbatim>\<open>createProxyMiddleware\<close> with a
  target, \<^verbatim>\<open>changeOrigin\<close>, one \<^verbatim>\<open>pathRewrite\<close> rule, \<^verbatim>\<open>onProxyReq\<close> and \<^verbatim>\<open>onProxyRes\<close> (the
  interface of http-proxy-middleware 2). The text writes the account and the token as the
  placeholders \<^verbatim>\<open><ACCOUNT_ID>\<close> and \<^verbatim>\<open><API_TOKEN>\<close>, to be replaced by the operator; they are
  the parameters \<open>credentials\<close> here.
\<close>

record request =
  req_method :: string
  url :: string
  req_headers :: "(string \<times> string) list"
  body :: string

record credentials =
  ACCOUNT_ID :: string
  API_TOKEN :: string

record proxied =
  target :: string
  outgoing :: request

text \<open>The path of a request URL: the part before the query string.\<close>

definition pathname :: "string \<Rightarrow> string" where
  "pathname u = takeWhile (\<lambda>c. c \<noteq> CHR ''?'') u"

text \<open>Header names are compared without regard to case; setting a header replaces it.\<close>

definition lower_char :: "char \<Rightarrow> char" where
  "lower_char c =
     (let n = (of_char c :: nat) in if 65 \<le> n \<and> n \<le> 90 then char_of (n + 32) else c)"

definition upper_char :: "char \<Rightarrow> char" where
  "upper_char c =
     (let n = (of_char c :: nat) in if 97 \<le> n \<and> n \<le> 122 then char_of (n - 32) else c)"

definition setHeader :: "string \<Rightarrow> string \<Rightarrow> (string \<times> string) list \<Rightarrow> (string \<times> string) list" where
  "setHeader k v hs =
     (k, v) # filter (\<lambda>h. map lower_char (fst h) \<noteq> map lower_char k) hs"

definition getHeader :: "string \<Rightarrow> (string \<times> string) list \<Rightarrow> string option" where
  "getHeader k hs = map_of (map (\<lambda>h. (map lower_char (fst h), snd h)) hs) (map lower_char k)"

text \<open>
  The rule \<^verbatim>\<open>'^/api/upload': `/client/v4/accounts/<ACCOUNT_ID>/stream`\<close>: the pattern is
  anchored at the start and has no other special character, so it matches exactly the
  URLs that begin with \<^verbatim>\<open>/api/upload\<close>, and the match is replaced. The middleware applies
  the rule to the URL the server received (\<^verbatim>\<open>req.originalUrl\<close>), not to the URL Express has
  cut the mount path from.
\<close>

definition pathRewrite :: "credentials \<Rightarrow> string \<Rightarrow> string" where
  "pathRewrite c u =
     (if prefix ''/api/upload'' u
      then ''/client/v4/accounts/'' @ ACCOUNT_ID c @ ''/stream'' @ drop (length ''/api/upload'') u
      else u)"

definition onProxyReq :: "credentials \<Rightarrow> request \<Rightarrow> request" where
  "onProxyReq c proxyReq =
     proxyReq\<lparr>req_headers :=
       setHeader ''Authorization'' (''Bearer '' @ API_TOKEN c) (req_headers proxyReq)\<rparr>"

text \<open>
  The proxy sends a request on with \<^verbatim>\<open>connection: close\<close>, unless the request asks for an
  upgrade: the Connection header then has \<^verbatim>\<open>upgrade\<close> as one of its comma-separated
  entries, white space and case aside (\<^verbatim>\<open>/(^|,)\s*upgrade\s*($|,)/i\<close>).
\<close>

definition js_space :: "char \<Rightarrow> bool" where
  "js_space c \<longleftrightarrow> (of_char c :: nat) \<in> {9, 10, 11, 12, 13, 32}"

fun split_commas :: "string \<Rightarrow> string list" where
  "split_commas [] = [[]]"
| "split_commas (c # cs) =
     (if c = CHR '','' then [] # split_commas cs
      else (case split_commas cs of [] \<Rightarrow> [[c]] | p # ps \<Rightarrow> (c # p) # ps))"

definition trim :: "string \<Rightarrow> string" where
  "trim t = rev (dropWhile js_space (rev (dropWhile js_space t)))"

definition upgrade_connection :: "string \<Rightarrow> bool" where
  "upgrade_connection v \<longleftrightarrow>
     list_ex (\<lambda>p. map lower_char (trim p) = ''upgrade'') (split_commas v)"

definition connection_header :: "(string \<times> string) list \<Rightarrow> (string \<times> string) list" where
  "connection_header hs =
     (case getHeader ''connection'' hs of
        None \<Rightarrow> setHeader ''connection'' ''close'' hs
      | Some v \<Rightarrow> (if upgrade_connection v then hs else setHeader ''connection'' ''close'' hs))"

text \<open>
  The request the middleware sends on: to the target, with the headers of the request it
  received, \<^verbatim>\<open>connection: close\<close>, the host header of the target (\<^verbatim>\<open>changeOrigin: true\<close>), the
  rewritten URL, and after \<open>onProxyReq\<close> has run on it.
\<close>

definition tusProxy :: "credentials \<Rightarrow> request \<Rightarrow> proxied" where
  "tusProxy c req =
     \<lparr>target = ''https://api.cloudflare.com'',
      outgoing =
        onProxyReq c
          (req\<lparr>url := pathRewrite c (url req),
               req_headers :=
                 setHeader ''host'' ''api.cloudflare.com'' (connection_header (req_headers req))\<rparr>)\<rparr>"

text \<open>
  \<^verbatim>\<open>onProxyRes\<close>, on the headers of the answer of the target and of the answer to the client:
  a non-empty \<^verbatim>\<open>stream-media-id\<close> header is copied.
\<close>

definition onProxyRes ::
  "(string \<times> string) list \<Rightarrow> (string \<times> string) list \<Rightarrow> (string \<times> string) list" where
  "onProxyRes proxyRes_headers res_headers =
     (case getHeader ''stream-media-id'' proxyRes_headers of
        None \<Rightarrow> res_headers
      | Some mediaIdHeader \<Rightarrow>
          (if mediaIdHeader \<noteq> [] then setHeader ''stream-media-id'' mediaIdHeader res_headers
           else res_headers))"

text \<open>
  What the application does with a request. \<^verbatim>\<open>cors()\<close> comes first and ends every OPTIONS
  request itself, with status 204 (its \<^verbatim>\<open>preflightContinue\<close> is off). The mount
  \<^verbatim>\<open>app.use('/api/upload', ...)\<close> hands on the requests whose path is the mount path or
  continues it with \<^verbatim>\<open>/\<close>, letters compared without regard to case; \<^verbatim>\<open>/api/uploads\<close> is not
  among them. A request no middleware takes gets the 404 of Express.
\<close>

datatype server_action = Answered nat | Forwarded proxied

definition preflight :: "request \<Rightarrow> bool" where
  "preflight req \<longleftrightarrow> map upper_char (req_method req) = ''OPTIONS''"

definition mounted_at :: "string \<Rightarrow> string \<Rightarrow> bool" where
  "mounted_at mount p \<longleftrightarrow>
     prefix mount (map lower_char p)
     \<and> (case drop (length mount) p of [] \<Rightarrow> True | c # rest \<Rightarrow> c = CHR ''/'')"

definition server :: "credentials \<Rightarrow> request \<Rightarrow> server_action" where
  "server c req =
     (if preflight req then Answered 204
      else if mounted_at ''/api/upload'' (pathname (url req)) then Forwarded (tusProxy c req)
      else Answered 404)"

section \<open>The requests the browser side constructs\<close>

text \<open>
  The request \<^verbatim>\<open>fetch(url, init)\<close> makes: without a second argument it is a GET with no
  header and no body of the caller's.
\<close>

definition fetch_request :: "string \<Rightarrow> RequestInit option \<Rightarrow> request" where
  "fetch_request u i =
     (case i of
        None \<Rightarrow> \<lparr>req_method = ''GET'', url = u, req_headers = [], body = []\<rparr>
      | Some init \<Rightarrow>
          \<lparr>req_method = (case init_method init of None \<Rightarrow> ''GET'' | Some m \<Rightarrow> m),
           url = u,
           req_headers = init_headers init,
           body = (case init_body init of None \<Rightarrow> [] | Some b \<Rightarrow> b)\<rparr>)"

fun fetch_requests :: "effect list \<Rightarrow> request list" where
  "fetch_requests [] = []"
| "fetch_requests (Fetch u i # es) = fetch_request u i # fetch_requests es"
| "fetch_requests (_ # es) = fetch_requests es"

section \<open>Browser, proxy and upstream together\<close>

text \<open>
  The component and the server in one system, with the credential in the server. What
  comes from outside: the user's events and the library's callbacks, the requests the
  library sends to the endpoint for an upload, and the answer to a status request, given
  by the upstream API when the server forwards the request and by the server of the page
  when the page is not served by the proxy. A URL that begins with \<^verbatim>\<open>/\<close> is relative to the
  origin of the page, so a status request reaches the proxy only if the page comes from
  \<^verbatim>\<open>http://localhost:3001\<close>. Of an answer the component reads the body alone, which the proxy
  passes on as it is; the answers the server gives by itself (the empty 204, the 404 page,
  the error text when the upstream cannot be reached) are not JSON.
\<close>

record response =
  status :: nat
  res_body :: string

datatype answer = Unreachable string | Replied response

definition proxy_origin :: string where
  "proxy_origin = ''http://localhost:3001''"

definition reaches_proxy :: "string \<Rightarrow> string \<Rightarrow> bool" where
  "reaches_proxy origin u \<longleftrightarrow>
     (if prefix ''/'' u then origin = proxy_origin else prefix (proxy_origin @ ''/'') u)"

definition path_at_proxy :: "string \<Rightarrow> string" where
  "path_at_proxy u = (if prefix ''/'' u then u else drop (length proxy_origin) u)"

definition read_json :: "js_runtime \<Rightarrow> string \<Rightarrow> fetch_outcome" where
  "read_json rt b =
     (case JSON_parse rt b of
        None \<Rightarrow> JsonRejected ''SyntaxError''
      | Some data \<Rightarrow> JsonParsed data)"

text \<open>
  How a request of the component ends, and what the upstream receives for it.
\<close>

definition deliver ::
  "credentials \<Rightarrow> js_runtime \<Rightarrow> string \<Rightarrow> request \<Rightarrow> answer \<Rightarrow> fetch_outcome \<times> proxied list" where
  "deliver c rt origin req ans =
     (if reaches_proxy origin (url req)
      then (case server c (req\<lparr>url := path_at_proxy (url req)\<rparr>) of
              Answered code \<Rightarrow> (JsonRejected ''SyntaxError'', [])
            | Forwarded p \<Rightarrow>
                (case ans of
                   Unreachable err \<Rightarrow> (JsonRejected ''SyntaxError'', [p])
                 | Replied r \<Rightarrow> (read_json rt (res_body r), [p])))
      else (case ans of
              Unreachable err \<Rightarrow> (FetchRejected err, [])
            | Replied r \<Rightarrow> (read_json rt (res_body r), [])))"

datatype sys_event =
    Browser event
  | StatusAnswer answer
  | LibraryRequest request

record system =
  client :: world
  in_flight :: "request list"

definition initial_system :: system where
  "initial_system = \<lparr>client = initial_world, in_flight = []\<rparr>"

fun is_settled :: "event \<Rightarrow> bool" where
  "is_settled (FetchSettled out) = True"
| "is_settled _ = False"

text \<open>
  A step gives the new state, what the component did, and what the upstream received. The
  end of a status request is not an event from outside here: it is made from the answer.
\<close>

definition system_step ::
  "credentials \<Rightarrow> js_runtime \<Rightarrow> string \<Rightarrow> string \<Rightarrow> sys_event \<Rightarrow> system
     \<Rightarrow> system \<times> effect list \<times> proxied list" where
  "system_step c rt ts origin sev st =
     (case sev of
        Browser ev \<Rightarrow>
          (if is_settled ev then (st, [], [])
           else (let r = step rt ts ev (client st) in
                 (\<lparr>client = fst r, in_flight = in_flight st @ fetch_requests (snd r)\<rparr>,
                  snd r, [])))
      | StatusAnswer ans \<Rightarrow>
          (case in_flight st of
             [] \<Rightarrow> (st, [], [])
           | req # rest \<Rightarrow>
               (let d = deliver c rt origin req ans;
                    r = step rt ts (FetchSettled (fst d)) (client st) in
                (\<lparr>client = fst r, in_flight = rest @ fetch_requests (snd r)\<rparr>, snd r, snd d)))
      | LibraryRequest req \<Rightarrow>
          (st, [], (case server c req of Answered code \<Rightarrow> [] | Forwarded p \<Rightarrow> [p])))"

fun system_run ::
  "credentials \<Rightarrow> js_runtime \<Rightarrow> string \<Rightarrow> string \<Rightarrow> sys_event list \<Rightarrow> system
     \<Rightarrow> system \<times> effect list \<times> proxied list" where
  "system_run c rt ts origin [] st = (st, [], [])"
| "system_run c rt ts origin (sev # sevs) st =
     (let r = system_step c rt ts origin sev st;
          r' = system_run c rt ts origin sevs (fst r) in
      (fst r', fst (snd r) @ fst (snd r'), snd (snd r) @ snd (snd r')))"

section \<open>Notions used to state the properties\<close>

text \<open>The text \<^verbatim>\<open>((bytesUploaded / bytesTotal) * 100).toFixed(2)\<close> of \<open>onProgress\<close>.\<close>

definition percentage_text :: "js_runtime \<Rightarrow> number \<Rightarrow> number \<Rightarrow> string" where
  "percentage_text rt bytesUploaded bytesTotal =
     toFixed rt (num_mul rt (num_div rt bytesUploaded bytesTotal) (Finite 100)) 2"

text \<open>The status messages, by the literal text each handler writes.\<close>

definition uploading_status :: "string \<Rightarrow> bool" where
  "uploading_status st \<longleftrightarrow> prefix ''Uploading: '' st \<and> suffix ''%'' st"

definition failed_status :: "string \<Rightarrow> bool" where
  "failed_status st \<longleftrightarrow> prefix ''Upload failed: '' st"

definition machine_status :: "string \<Rightarrow> bool" where
  "machine_status st \<longleftrightarrow>
     st = [] \<or> st = ''File selected'' \<or> st = ''Please select a file first''
     \<or> st = ''Starting upload...'' \<or> uploading_status st
     \<or> st = ''Upload complete! Video is now processing.'' \<or> st = ''Upload cancelled''
     \<or> failed_status st"

definition status_after :: "js_runtime \<Rightarrow> string \<Rightarrow> event \<Rightarrow> world \<Rightarrow> string" where
  "status_after rt ts ev w = uploadStatus (app (fst (step rt ts ev w)))"

fun is_success :: "event \<Rightarrow> bool" where
  "is_success (TusSuccess i) = True"
| "is_success _ = False"

text \<open>A settled status request hands a media id to \<^verbatim>\<open>setMediaId\<close>: a truthy \<^verbatim>\<open>mediaId\<close> member.\<close>

definition carries_mediaId :: "fetch_outcome \<Rightarrow> bool" where
  "carries_mediaId out =
     (case out of
        JsonParsed data \<Rightarrow>
          (case get_property data ''mediaId'' of Inr (Some v) \<Rightarrow> truthy v | _ \<Rightarrow> False)
      | _ \<Rightarrow> False)"

fun settles_with_id :: "event \<Rightarrow> bool" where
  "settles_with_id (FetchSettled out) = carries_mediaId out"
| "settles_with_id _ = False"

text \<open>The calls into the upload library, the console calls, and the status request.\<close>

fun tus_library_call :: "effect \<Rightarrow> bool" where
  "tus_library_call (TusNew u) = True"
| "tus_library_call (TusStart u) = True"
| "tus_library_call (TusAbort u) = True"
| "tus_library_call _ = False"

fun console_call :: "effect \<Rightarrow> bool" where
  "console_call (ConsoleLog args) = True"
| "console_call (ConsoleError args) = True"
| "console_call _ = False"

fun status_fetch :: "effect \<Rightarrow> bool" where
  "status_fetch (Fetch u i) = (i = None \<and> prefix ''/api/upload/status?filename='' u)"
| "status_fetch _ = False"

definition component_call :: "effect \<Rightarrow> bool" where
  "component_call e \<longleftrightarrow> tus_library_call e \<or> console_call e \<or> status_fetch e"

text \<open>
  A request of the tus protocol: one of its methods (POST to create, HEAD to ask for the
  offset, PATCH to send a chunk, DELETE to terminate, OPTIONS to ask what the server can
  do), or a request that carries \<^verbatim>\<open>Tus-Resumable\<close> or one of the \<^verbatim>\<open>Upload-\<close> headers.
\<close>

definition tus_header :: "string \<times> string \<Rightarrow> bool" where
  "tus_header h \<longleftrightarrow>
     map lower_char (fst h) = ''tus-resumable'' \<or> prefix ''upload-'' (map lower_char (fst h))"

definition tus_request :: "request \<Rightarrow> bool" where
  "tus_request r \<longleftrightarrow>
     map upper_char (req_method r) \<in> set [''POST'', ''HEAD'', ''PATCH'', ''DELETE'', ''OPTIONS'']
     \<or> list_ex tus_header (req_headers r)"

text \<open>The headers the proxy writes itself; every other header it passes on.\<close>

definition proxy_header :: "string \<Rightarrow> bool" where
  "proxy_header k \<longleftrightarrow>
     map lower_char k \<in> set [''authorization'', ''host'', ''connection'']"

text \<open>A request that leaves the proxy with the token of the server.\<close>

definition authorized :: "credentials \<Rightarrow> proxied \<Rightarrow> bool" where
  "authorized c p \<longleftrightarrow>
     getHeader ''Authorization'' (req_headers (outgoing p)) = Some (''Bearer '' @ API_TOKEN c)"

text \<open>An instance whose options are the ones \<open>handleUpload\<close> writes for the file it holds.\<close>

definition registered :: "string \<Rightarrow> Upload \<Rightarrow> bool" where
  "registered ts u \<longleftrightarrow> options u = upload_options ts (upload_file u)"

text \<open>
  Where the component sends, and with which headers of its own: a new upload goes to the
  endpoint \<^verbatim>\<open>http://localhost:3001/api/upload\<close> and its options give no Authorization header;
  a \<^verbatim>\<open>fetch\<close> goes to the status URL, which is relative to the origin of the page, and
  makes a request without an Authorization header.
\<close>

fun addressed :: "effect \<Rightarrow> bool" where
  "addressed (TusNew u) =
     (endpoint (options u) = ''http://localhost:3001/api/upload''
      \<and> (case headers (options u) of
            None \<Rightarrow> True
          | Some hs \<Rightarrow> getHeader ''Authorization'' hs = None))"
| "addressed (Fetch u i) =
     (prefix ''/api/upload/status?filename='' u
      \<and> getHeader ''Authorization'' (req_headers (fetch_request u i)) = None)"
| "addressed _ = True"

text \<open>
  The phases of the upload, read from the status text, and the arrows of the machine
  idle, uploading, then done, cancelled or error; staying in a phase is no arrow of its own.
\<close>

datatype phase = Idle | Uploading | Done | Cancelled | Failed

definition phase_of :: "string \<Rightarrow> phase" where
  "phase_of st =
     (if uploading_status st then Uploading
      else if st = ''Upload complete! Video is now processing.'' then Done
      else if st = ''Upload cancelled'' then Cancelled
      else if failed_status st then Failed
      else Idle)"

fun arrow :: "phase \<Rightarrow> phase \<Rightarrow> bool" where
  "arrow Idle Uploading = True"
| "arrow Uploading Done = True"
| "arrow Uploading Cancelled = True"
| "arrow Uploading Failed = True"
| "arrow p q = (p = q)"

subsection \<open>The arithmetic of the runtime\<close>

text \<open>
  A number rounded to two decimal places, a tie going up: \<^verbatim>\<open>toFixed(2)\<close> prints the integer
  \<open>n\<close> for which \<open>n / 100\<close> is nearest to its argument, the larger of two.
\<close>

definition round2 :: "real \<Rightarrow> real" where
  "round2 x = of_int \<lfloor>x * 100 + 1 / 2\<rfloor> / 100"

text \<open>
  What \<open>onProgress\<close> needs of a runtime whose numbers are rounded by \<open>rnd\<close>: the rounding is
  monotone and keeps 0, 1 and 100 (as rounding to the nearest binary64 value does: the
  three are binary64 values); a quotient between 0 and 1 and its product with 100 are the
  exact results rounded; and \<^verbatim>\<open>Number\<close> reads the text of \<^verbatim>\<open>toFixed(2)\<close> as the number
  nearest to the decimal printed.
\<close>

definition binary64_like :: "(real \<Rightarrow> real) \<Rightarrow> js_runtime \<Rightarrow> bool" where
  "binary64_like rnd rt \<longleftrightarrow>
     mono rnd \<and> rnd 0 = 0 \<and> rnd 1 = 1 \<and> rnd 100 = 100
     \<and> (\<forall>a b. 0 \<le> a \<and> a \<le> b \<and> 0 < b \<longrightarrow>
            num_div rt (Finite a) (Finite b) = Finite (rnd (a / b)))
     \<and> (\<forall>x. 0 \<le> x \<and> x \<le> 1 \<longrightarrow>
            num_mul rt (Finite x) (Finite 100) = Finite (rnd (x * 100)))
     \<and> (\<forall>x. 0 \<le> x \<and> x \<le> 100 \<longrightarrow>
            Number rt (toFixed rt (Finite x) 2) = Finite (rnd (round2 x)))"

text \<open>
  A runtime of this kind that does not round at all: it prints a count of hundredths with
  two decimals and reads such a text back.
\<close>

definition decimal2 :: "nat \<Rightarrow> string" where
  "decimal2 n =
     string_of_nat (n div 100) @ ''.''
     @ [''0123456789'' ! (n div 10 mod 10), ''0123456789'' ! (n mod 10)]"

definition digit_value :: "char \<Rightarrow> nat" where
  "digit_value c = (of_char c :: nat) - 48"

definition nat_of_digits :: "string \<Rightarrow> nat" where
  "nat_of_digits t = foldl (\<lambda>n c. 10 * n + digit_value c) 0 t"

definition read_decimal2 :: "string \<Rightarrow> real" where
  "read_decimal2 t = real (nat_of_digits (filter (\<lambda>c. c \<noteq> CHR ''.'') t)) / 100"

definition exact_runtime :: js_runtime where
  "exact_runtime =
     \<lparr>num_div = (\<lambda>a b. case a of
                   Finite x \<Rightarrow> (case b of Finite y \<Rightarrow> (if y = 0 then NaN else Finite (x / y))
                                | _ \<Rightarrow> NaN)
                 | _ \<Rightarrow> NaN),
      num_mul = (\<lambda>a b. case a of
                   Finite x \<Rightarrow> (case b of Finite y \<Rightarrow> Finite (x * y) | _ \<Rightarrow> NaN)
                 | _ \<Rightarrow> NaN),
      toFixed = (\<lambda>a digits. case a of
                   Finite x \<Rightarrow> (if 0 \<le> x \<and> digits = 2 then decimal2 (nat \<lfloor>x * 100 + 1 / 2\<rfloor>)
                                else ''NaN'')
                 | _ \<Rightarrow> ''NaN''),
      Number = (\<lambda>t. Finite (read_decimal2 t)),
      JSON_parse = (\<lambda>t. None)\<rparr>"

text \<open>
  The binary64 values at \<^verbatim>\<open>onProgress(1015, 100000)\<close>: the quotient is
  1462769158969937 / 2^57, its product with 100 is 4571153621781053 / 2^52, which is
  1.01499999999999990230..., printed \<^verbatim>\<open>1.01\<close>, and \<^verbatim>\<open>Number("1.01")\<close> is
  4548635623644201 / 2^52.
\<close>

definition binary64_at_1015 :: js_runtime where
  "binary64_at_1015 =
     \<lparr>num_div = (\<lambda>a b. if a = Finite 1015 \<and> b = Finite 100000
                        then Finite (1462769158969937 / 2 ^ 57) else NaN),
      num_mul = (\<lambda>a b. if a = Finite (1462769158969937 / 2 ^ 57) \<and> b = Finite 100
                        then Finite (4571153621781053 / 2 ^ 52) else NaN),
      toFixed = (\<lambda>x digits. if x = Finite (4571153621781053 / 2 ^ 52) \<and> digits = 2
                             then ''1.01'' else ''NaN''),
      Number = (\<lambda>t. if t = ''1.01'' then Finite (4548635623644201 / 2 ^ 52) else NaN),
      JSON_parse = (\<lambda>t. None)\<rparr>"

subsection \<open>Values for the examples\<close>

text \<open>
  A file of 100 MiB, the instance \<open>handleUpload\<close> creates for it, and a runtime that gives
  what binary64 arithmetic gives where the examples use it: \<^verbatim>\<open>52428800 / 104857600\<close> is
  0.5, \<^verbatim>\<open>0.5 * 100\<close> is 50, \<^verbatim>\<open>(50).toFixed(2)\<close> is \<^verbatim>\<open>"50.00"\<close> and \<^verbatim>\<open>Number("50.00")\<close> is 50;
  of the JSON texts it reads the empty object.
\<close>

definition example_file :: File where
  "example_file = \<lparr>name = ''clip 1.mp4'', type = ''video/mp4'', size_bytes = Finite 104857600\<rparr>"

definition example_upload :: Upload where
  "example_upload =
     \<lparr>upload_file = example_file, options = upload_options ''2026-11-2_5-31-0'' example_file\<rparr>"

definition example_runtime :: js_runtime where
  "example_runtime =
     \<lparr>num_div = (\<lambda>a b. if a = Finite 52428800 \<and> b = Finite 104857600 then Finite (1 / 2) else NaN),
      num_mul = (\<lambda>a b. if a = Finite (1 / 2) \<and> b = Finite 100 then Finite 50 else NaN),
      toFixed = (\<lambda>x digits. if x = Finite 50 \<and> digits = 2 then ''50.00'' else ''NaN''),
      Number = (\<lambda>t. if t = ''50.00'' then Finite 50 else NaN),
      JSON_parse = (\<lambda>t. if t = ''{}'' then Some (JObj []) else None)\<rparr>"

definition world_uploading :: world where
  "world_uploading =
     \<lparr>app = \<lparr>file = Some example_file, progress = Finite 50,
             uploadStatus = ''Uploading: 50.00%'', mediaId = JStr [],
             upload = Some example_upload\<rparr>,
      uploads = [example_upload], pending = 0\<rparr>"

text \<open>The credentials as the text writes them, and a request of the upload to the proxy.\<close>

definition example_credentials :: credentials where
  "example_credentials = \<lparr>ACCOUNT_ID = ''<ACCOUNT_ID>'', API_TOKEN = ''<API_TOKEN>''\<rparr>"

definition example_request :: request where
  "example_request =
     \<lparr>req_method = ''PATCH'', url = ''/api/upload/ea0a1c8e?direct=1'',
      req_headers = [(''Host'', ''localhost:3001''), (''Tus-Resumable'', ''1.0.0''),
                     (''authorization'', ''Basic Zm9v'')],
      body = ''chunk''\<rparr>"

text \<open>
  What the component does not do: a chunk sent by hand with \<^verbatim>\<open>fetch\<close>, as a request of the
  tus protocol with a credential of its own.
\<close>

definition example_handmade :: effect where
  "example_handmade =
     Fetch ''http://localhost:3001/api/upload/ea0a1c8e''
       (Some \<lparr>init_method = Some ''PATCH'',
              init_headers = [(''Tus-Resumable'', ''1.0.0''), (''Upload-Offset'', ''0''),
                              (''Authorization'', ''Bearer secret'')],
              init_body = Some ''chunk''\<rparr>)"

text \<open>
  Events of the whole system: a file is selected and uploaded, the library sends a chunk
  through the proxy, the upload succeeds, and the upstream answers the status request.
\<close>

definition example_events :: "sys_event list" where
  "example_events =
     [Browser (ChangeFile (Some [example_file])), Browser ClickUpload,
      LibraryRequest example_request, Browser (TusSuccess 0),
      StatusAnswer (Replied \<lparr>status = 200, res_body = ''{}''\<rparr>)]"

section \<open>Properties\<close>

subsection \<open>Handlers and transitions\<close>

lemma react_app: "app (fst (react w r)) = fst r"
  by (simp add: react_def Let_def)

lemma example_run:
  "fst (run example_runtime ''2026-11-2_5-31-0''
          [ChangeFile (Some [example_file]), ClickUpload,
           TusProgress 0 (Finite 52428800) (Finite 104857600)] initial_world)
   = world_uploading"
  by (simp add: step_def react_def handleFileChange_def handleUpload_def onProgress_def
      render_def initial_world_def initial_state_def world_uploading_def example_upload_def
      example_runtime_def cleanup_def Let_def)

lemma render_result_text: "mediaId s = JStr t \<Longrightarrow> render_result s = Inr (render s)"
  by (simp add: render_result_def)

lemma render_result_object:
  "render_result (initial_state\<lparr>mediaId := JObj [(''id'', JStr ''abc123'')]\<rparr>) = Inl ObjectAsChild"
  by (simp add: render_result_def)

lemma example_timestamp:
  "timestamp \<lparr>getFullYear = 2026, getMonth = 10, getDate = 2, getHours = 5, getMinutes = 31,
      getSeconds = 0\<rparr> = ''2026-11-2_5-31-0''"
  by code_simp

text \<open>
  C8. When \<open>handleUpload\<close> runs with no file selected it sets the status to
  \<^verbatim>\<open>Please select a file first\<close> and returns: no instance is created or started, and the file,
  the progress, the media id and the stored instance are what they were.
\<close>

theorem handleUpload_without_file:
  assumes "file s = None"
  shows "uploadStatus (fst (handleUpload ts s)) = ''Please select a file first''
       \<and> snd (handleUpload ts s) = []
       \<and> created (snd (handleUpload ts s)) = []
       \<and> file (fst (handleUpload ts s)) = file s
       \<and> progress (fst (handleUpload ts s)) = progress s
       \<and> mediaId (fst (handleUpload ts s)) = mediaId s
       \<and> upload (fst (handleUpload ts s)) = upload s"
  using assms by (simp add: handleUpload_def)

theorem handleUpload_without_file_witness:
  "file initial_state = None
   \<and> handleUpload ''2026-11-2_5-31-0'' initial_state =
       (\<lparr>file = None, progress = Finite 0, uploadStatus = ''Please select a file first'',
         mediaId = JStr [], upload = None\<rparr>, [])"
proof -
  have none: "file initial_state = None"
    by (simp add: initial_state_def)
  from handleUpload_without_file [OF none, of "''2026-11-2_5-31-0''"] none
  show ?thesis
    by (simp add: initial_state_def prod_eq_iff)
qed

lemma step_status:
  "uploadStatus (app (fst (step rt ts ev w))) = uploadStatus (app w) \<or>
   (case ev of
      ChangeFile files \<Rightarrow> uploadStatus (app (fst (step rt ts ev w))) = ''File selected''
    | ClickUpload \<Rightarrow> uploadStatus (app (fst (step rt ts ev w))) = ''Starting upload...''
    | ClickCancel \<Rightarrow> uploadStatus (app (fst (step rt ts ev w))) = ''Upload cancelled''
    | TusError i m \<Rightarrow> uploadStatus (app (fst (step rt ts ev w))) = ''Upload failed: '' @ m
    | TusProgress i a b \<Rightarrow>
        uploadStatus (app (fst (step rt ts ev w))) = ''Uploading: '' @ percentage_text rt a b @ ''%''
    | TusSuccess i \<Rightarrow>
        uploadStatus (app (fst (step rt ts ev w))) = ''Upload complete! Video is now processing.''
    | FetchSettled out \<Rightarrow> False)"
  by (cases ev)
     (auto simp: step_def react_app handleFileChange_def handleUpload_def handleCancel_def
        onError_def onProgress_def onSuccess_def fetch_settled_def percentage_text_def
        render_def Let_def
        split: option.splits list.splits fetch_outcome.splits sum.splits js_error.splits)

lemma step_machine:
  "machine_status (uploadStatus (app w)) \<Longrightarrow>
   machine_status (uploadStatus (app (fst (step rt ts ev w))))"
  using step_status [of rt ts ev w]
  by (cases ev) (auto simp: machine_status_def uploading_status_def failed_status_def suffix_def)

lemma run_machine:
  "machine_status (uploadStatus (app w)) \<Longrightarrow>
   machine_status (uploadStatus (app (fst (run rt ts evs w))))"
  by (induction evs arbitrary: w) (simp_all add: Let_def step_machine)

lemma status_after_cases:
  "status_after rt ts ev w = uploadStatus (app w) \<or>
   (case ev of
      ChangeFile files \<Rightarrow> status_after rt ts ev w = ''File selected''
    | ClickUpload \<Rightarrow> status_after rt ts ev w = ''Starting upload...''
    | ClickCancel \<Rightarrow> status_after rt ts ev w = ''Upload cancelled''
    | TusError i m \<Rightarrow> status_after rt ts ev w = ''Upload failed: '' @ m
    | TusProgress i a b \<Rightarrow>
        status_after rt ts ev w = ''Uploading: '' @ percentage_text rt a b @ ''%''
    | TusSuccess i \<Rightarrow> status_after rt ts ev w = ''Upload complete! Video is now processing.''
    | FetchSettled out \<Rightarrow> False)"
  unfolding status_after_def by (rule step_status)

text \<open>
  C4, as stated, fails in one point: the status does not follow the order idle, uploading,
  then done, cancelled or error. A file selected during an upload takes the status from
  \<^verbatim>\<open>Uploading: 50.00%\<close> back to \<^verbatim>\<open>File selected\<close>, and an error of the library right after
  the start takes it from \<^verbatim>\<open>Starting upload...\<close> to \<^verbatim>\<open>Upload failed: ...\<close>.
\<close>

theorem status_order_not_kept:
  "uploadStatus (app (fst (run example_runtime ''2026-11-2_5-31-0''
      [ChangeFile (Some [example_file]), ClickUpload,
       TusProgress 0 (Finite 52428800) (Finite 104857600)] initial_world)))
     = ''Uploading: 50.00%''
   \<and> uploadStatus (app (fst (run example_runtime ''2026-11-2_5-31-0''
      [ChangeFile (Some [example_file]), ClickUpload,
       TusProgress 0 (Finite 52428800) (Finite 104857600),
       ChangeFile (Some [example_file])] initial_world)))
     = ''File selected''
   \<and> \<not> arrow (phase_of ''Uploading: 50.00%'') (phase_of ''File selected'')
   \<and> uploadStatus (app (fst (run example_runtime ''2026-11-2_5-31-0''
      [ChangeFile (Some [example_file]), ClickUpload] initial_world)))
     = ''Starting upload...''
   \<and> uploadStatus (app (fst (run example_runtime ''2026-11-2_5-31-0''
      [ChangeFile (Some [example_file]), ClickUpload, TusError 0 ''boom''] initial_world)))
     = ''Upload failed: boom''
   \<and> \<not> arrow (phase_of ''Starting upload...'') (phase_of ''Upload failed: boom'')"
  by (simp add: step_def react_def handleFileChange_def handleUpload_def onProgress_def
      onError_def render_def initial_world_def initial_state_def example_runtime_def
      cleanup_def Let_def phase_of_def uploading_status_def failed_status_def suffix_def)

text \<open>
  C4, amended. The status takes only the texts of the machine, each written by its own
  handler, in whatever order the events come. A transition leaves the status as it is or
  sets it to the text of the handler that ran: \<^verbatim>\<open>File selected\<close> (file input),
  \<^verbatim>\<open>Starting upload...\<close> (Upload), \<^verbatim>\<open>Upload cancelled\<close> (Cancel), \<^verbatim>\<open>Upload failed: <message>\<close>
  (\<open>onError\<close>), \<^verbatim>\<open>Uploading: <percentage>%\<close> (\<open>onProgress\<close>), the completion message
  (\<open>onSuccess\<close>); the end of a status request never sets it. Hence a change into an
  uploading status is made by \<open>onProgress\<close>, into the completion status by \<open>onSuccess\<close>,
  into a failed status by \<open>onError\<close> and into \<^verbatim>\<open>Upload cancelled\<close> by \<open>handleCancel\<close>; and
  every status reached from the initial state is one of the machine: empty, one of the
  three idle messages, or one of these four.
\<close>

theorem upload_status_machine:
  "(status_after rt ts ev w = uploadStatus (app w) \<or>
    (case ev of
       ChangeFile files \<Rightarrow> status_after rt ts ev w = ''File selected''
     | ClickUpload \<Rightarrow> status_after rt ts ev w = ''Starting upload...''
     | ClickCancel \<Rightarrow> status_after rt ts ev w = ''Upload cancelled''
     | TusError i m \<Rightarrow> status_after rt ts ev w = ''Upload failed: '' @ m
     | TusProgress i a b \<Rightarrow>
         status_after rt ts ev w = ''Uploading: '' @ percentage_text rt a b @ ''%''
     | TusSuccess i \<Rightarrow> status_after rt ts ev w = ''Upload complete! Video is now processing.''
     | FetchSettled out \<Rightarrow> False))
   \<and> (status_after rt ts ev w \<noteq> uploadStatus (app w) \<and> uploading_status (status_after rt ts ev w)
        \<longrightarrow> (\<exists>i a b. ev = TusProgress i a b))
   \<and> (status_after rt ts ev w \<noteq> uploadStatus (app w)
        \<and> status_after rt ts ev w = ''Upload complete! Video is now processing.''
        \<longrightarrow> (\<exists>i. ev = TusSuccess i))
   \<and> (status_after rt ts ev w \<noteq> uploadStatus (app w) \<and> failed_status (status_after rt ts ev w)
        \<longrightarrow> (\<exists>i m. ev = TusError i m))
   \<and> (status_after rt ts ev w \<noteq> uploadStatus (app w)
        \<and> status_after rt ts ev w = ''Upload cancelled''
        \<longrightarrow> ev = ClickCancel)
   \<and> machine_status (uploadStatus (app (fst (run rt ts evs initial_world))))"
proof -
  note c = status_after_cases [of rt ts ev w]
  have progress_only:
    "status_after rt ts ev w \<noteq> uploadStatus (app w) \<and> uploading_status (status_after rt ts ev w)
       \<longrightarrow> (\<exists>i a b. ev = TusProgress i a b)"
    using c by (cases ev) (auto simp: uploading_status_def)
  have success_only:
    "status_after rt ts ev w \<noteq> uploadStatus (app w)
       \<and> status_after rt ts ev w = ''Upload complete! Video is now processing.''
       \<longrightarrow> (\<exists>i. ev = TusSuccess i)"
    using c by (cases ev) auto
  have error_only:
    "status_after rt ts ev w \<noteq> uploadStatus (app w) \<and> failed_status (status_after rt ts ev w)
       \<longrightarrow> (\<exists>i m. ev = TusError i m)"
    using c by (cases ev) (auto simp: failed_status_def)
  have cancel_only:
    "status_after rt ts ev w \<noteq> uploadStatus (app w)
       \<and> status_after rt ts ev w = ''Upload cancelled''
       \<longrightarrow> ev = ClickCancel"
    using c by (cases ev) auto
  have "machine_status (uploadStatus (app initial_world))"
    by (simp add: initial_world_def initial_state_def machine_status_def)
  then have reach: "machine_status (uploadStatus (app (fst (run rt ts evs initial_world))))"
    by (rule run_machine)
  from c progress_only success_only error_only cancel_only reach show ?thesis
    by blast
qed

theorem upload_status_machine_witness:
  "status_after example_runtime ''2026-11-2_5-31-0'' (TusError 0 ''timeout'') world_uploading
     = ''Upload failed: timeout''
   \<and> uploadStatus (app world_uploading) = ''Uploading: 50.00%''
   \<and> failed_status ''Upload failed: timeout''
   \<and> status_after example_runtime ''2026-11-2_5-31-0'' (TusSuccess 0) world_uploading
     = ''Upload complete! Video is now processing.''
   \<and> status_after example_runtime ''2026-11-2_5-31-0'' ClickCancel world_uploading
     = ''Upload cancelled''
   \<and> status_after example_runtime ''2026-11-2_5-31-0''
        (TusProgress 0 (Finite 52428800) (Finite 104857600))
        (world_uploading\<lparr>app := (app world_uploading)\<lparr>uploadStatus := ''Starting upload...''\<rparr>\<rparr>)
     = ''Uploading: 50.00%''
   \<and> uploading_status ''Uploading: 50.00%''
   \<and> machine_status (uploadStatus (app (fst (run example_runtime ''2026-11-2_5-31-0''
        [ChangeFile (Some [example_file]), ClickUpload,
         TusProgress 0 (Finite 52428800) (Finite 104857600)] initial_world))))"
proof -
  have e: "status_after example_runtime ''2026-11-2_5-31-0'' (TusError 0 ''timeout'') world_uploading
     = ''Upload failed: timeout''"
    by (simp add: status_after_def step_def react_app onError_def world_uploading_def)
  have s: "status_after example_runtime ''2026-11-2_5-31-0'' (TusSuccess 0) world_uploading
     = ''Upload complete! Video is now processing.''"
    by (simp add: status_after_def step_def react_app onSuccess_def world_uploading_def)
  have c: "status_after example_runtime ''2026-11-2_5-31-0'' ClickCancel world_uploading
     = ''Upload cancelled''"
    by (simp add: status_after_def step_def react_app handleCancel_def render_def
        world_uploading_def)
  have p: "status_after example_runtime ''2026-11-2_5-31-0''
        (TusProgress 0 (Finite 52428800) (Finite 104857600))
        (world_uploading\<lparr>app := (app world_uploading)\<lparr>uploadStatus := ''Starting upload...''\<rparr>\<rparr>)
     = ''Uploading: 50.00%''"
    by (simp add: status_after_def step_def react_app onProgress_def world_uploading_def
        example_runtime_def)
  have st: "uploadStatus (app world_uploading) = ''Uploading: 50.00%''"
    by (simp add: world_uploading_def)
  have f: "failed_status ''Upload failed: timeout''"
    by (simp add: failed_status_def)
  have u: "uploading_status ''Uploading: 50.00%''"
    by (simp add: uploading_status_def suffix_def)
  from upload_status_machine
         [of example_runtime "''2026-11-2_5-31-0''" "TusError 0 ''timeout''" world_uploading
            "[ChangeFile (Some [example_file]), ClickUpload,
              TusProgress 0 (Finite 52428800) (Finite 104857600)]"]
  have m: "machine_status (uploadStatus (app (fst (run example_runtime ''2026-11-2_5-31-0''
        [ChangeFile (Some [example_file]), ClickUpload,
         TusProgress 0 (Finite 52428800) (Finite 104857600)] initial_world))))"
    by blast
  from e st f s c p u m show ?thesis by blast
qed

lemma step_starts:
  "TusNew u \<in> set (snd (step rt ts ev w)) \<or> TusStart u \<in> set (snd (step rt ts ev w))
   \<Longrightarrow> ev = ClickUpload"
  by (cases ev)
     (auto simp: step_def react_def handleFileChange_def handleCancel_def
        onError_def onProgress_def onSuccess_def fetch_settled_def cleanup_def Let_def
        split: option.splits list.splits fetch_outcome.splits sum.splits js_error.splits if_splits)

lemma step_aborts:
  "TusAbort u \<in> set (snd (step rt ts ev w))
   \<Longrightarrow> (ev = ClickCancel \<or> ev = ClickUpload) \<and> upload (app w) = Some u"
  by (cases ev)
     (auto simp: step_def react_def handleFileChange_def handleCancel_def handleUpload_def
        onError_def onProgress_def onSuccess_def fetch_settled_def cleanup_def Let_def
        split: option.splits list.splits fetch_outcome.splits sum.splits js_error.splits if_splits)

text \<open>
  C1. With a file selected, \<open>handleUpload\<close> creates the instance with the retry delays
  0, 3000, 5000, 10000 and 20000 ms and a chunk size of 50 * 1024 * 1024 = 52428800 bytes,
  and starts it. \<open>onError\<close> only logs and sets the status to \<^verbatim>\<open>Upload failed: <message>\<close>.
  \<open>handleCancel\<close> and the cleanup (also run on unmount) abort the stored instance and do
  nothing else to it. In a transition, an instance is created or started only by a click on
  Upload, and an abort is of the stored instance, by a click on Cancel or by the cleanup
  that follows a click on Upload.
\<close>

theorem upload_options_and_recovery:
  assumes "file s = Some f"
  shows "handleUpload ts s =
           (s\<lparr>uploadStatus := ''Starting upload...'',
              upload := Some \<lparr>upload_file = f, options = upload_options ts f\<rparr>\<rparr>,
            [ConsoleLog [name f, ''FILENAME >>>>>>>>>>>>''],
             TusNew \<lparr>upload_file = f, options = upload_options ts f\<rparr>,
             TusStart \<lparr>upload_file = f, options = upload_options ts f\<rparr>])
       \<and> retryDelays (upload_options ts f) = [0, 3000, 5000, 10000, 20000]
       \<and> chunkSize (upload_options ts f) = 52428800
       \<and> onError message s' =
           (s'\<lparr>uploadStatus := ''Upload failed: '' @ message\<rparr>,
            [ConsoleError [''Upload error:'', message]])
       \<and> snd (handleCancel s') = cleanup (upload s')
       \<and> unmount w = cleanup (upload (app w))
       \<and> cleanup uo = (case uo of Some v \<Rightarrow> [TusAbort v] | None \<Rightarrow> [])
       \<and> (TusNew u \<in> set (snd (step rt ts ev w)) \<or> TusStart u \<in> set (snd (step rt ts ev w))
           \<longrightarrow> ev = ClickUpload)
       \<and> (TusAbort u \<in> set (snd (step rt ts ev w))
           \<longrightarrow> (ev = ClickCancel \<or> ev = ClickUpload) \<and> upload (app w) = Some u)"
proof -
  have created_instance: "handleUpload ts s =
           (s\<lparr>uploadStatus := ''Starting upload...'',
              upload := Some \<lparr>upload_file = f, options = upload_options ts f\<rparr>\<rparr>,
            [ConsoleLog [name f, ''FILENAME >>>>>>>>>>>>''],
             TusNew \<lparr>upload_file = f, options = upload_options ts f\<rparr>,
             TusStart \<lparr>upload_file = f, options = upload_options ts f\<rparr>])"
    using assms by (simp add: handleUpload_def Let_def)
  have delays: "retryDelays (upload_options ts f) = [0, 3000, 5000, 10000, 20000]"
    by (simp add: upload_options_def)
  have chunk: "chunkSize (upload_options ts f) = 52428800"
    by (simp add: upload_options_def)
  have on_error: "onError message s' =
           (s'\<lparr>uploadStatus := ''Upload failed: '' @ message\<rparr>,
            [ConsoleError [''Upload error:'', message]])"
    by (simp add: onError_def)
  have cancel: "snd (handleCancel s') = cleanup (upload s')"
    by (simp add: handleCancel_def cleanup_def split: option.splits)
  have unmounting: "unmount w = cleanup (upload (app w))"
    by (simp add: unmount_def)
  have cleaning: "cleanup uo = (case uo of Some v \<Rightarrow> [TusAbort v] | None \<Rightarrow> [])"
    by (simp add: cleanup_def)
  have starts: "TusNew u \<in> set (snd (step rt ts ev w)) \<or> TusStart u \<in> set (snd (step rt ts ev w))
           \<longrightarrow> ev = ClickUpload"
    using step_starts by blast
  have aborts: "TusAbort u \<in> set (snd (step rt ts ev w))
           \<longrightarrow> (ev = ClickCancel \<or> ev = ClickUpload) \<and> upload (app w) = Some u"
    using step_aborts by blast
  from created_instance delays chunk on_error cancel unmounting cleaning starts aborts
  show ?thesis by blast
qed

theorem upload_options_and_recovery_witness:
  "file (app world_uploading) = Some example_file
   \<and> snd (handleUpload ''2026-11-2_5-31-0'' (app world_uploading)) =
       [ConsoleLog [''clip 1.mp4'', ''FILENAME >>>>>>>>>>>>''],
        TusNew example_upload, TusStart example_upload]
   \<and> retryDelays (options example_upload) = [0, 3000, 5000, 10000, 20000]
   \<and> chunkSize (options example_upload) = 52428800
   \<and> TusAbort example_upload
       \<in> set (snd (step example_runtime ''2026-11-2_5-31-0'' ClickCancel world_uploading))
   \<and> upload (app world_uploading) = Some example_upload"
proof -
  have sel: "file (app world_uploading) = Some example_file"
    by (simp add: world_uploading_def)
  have ab: "TusAbort example_upload
       \<in> set (snd (step example_runtime ''2026-11-2_5-31-0'' ClickCancel world_uploading))"
    by (simp add: step_def react_def render_def handleCancel_def world_uploading_def)
  from upload_options_and_recovery
         [where s = "app world_uploading" and f = example_file
            and ts = "''2026-11-2_5-31-0''" and u = example_upload
            and rt = example_runtime and ev = ClickCancel and w = world_uploading, OF sel]
       sel ab
  show ?thesis
    by (simp add: example_upload_def example_file_def)
qed

lemma mid_progress_iff:
  "(num_less (Finite 0) p \<and> num_less p (Finite 100)) = (\<exists>r. p = Finite r \<and> 0 < r \<and> r < 100)"
  by (cases p) auto

text \<open>
  C10. In every state the Upload button is disabled exactly when no file is selected or the
  progress is strictly between 0 and 100, and the Cancel button is rendered exactly when
  the progress is strictly between 0 and 100 (a finite number: NaN and the infinities are
  not). So with the progress strictly between 0 and 100 a click on Upload reaches no
  handler, and otherwise a click on Cancel reaches none.
\<close>

theorem buttons_follow_progress:
  "upload_disabled (render s) =
     (file s = None \<or> (num_less (Finite 0) (progress s) \<and> num_less (progress s) (Finite 100)))
   \<and> cancel_rendered (render s) =
     (num_less (Finite 0) (progress s) \<and> num_less (progress s) (Finite 100))
   \<and> (num_less (Finite 0) (progress s) \<and> num_less (progress s) (Finite 100)) =
     (\<exists>r. progress s = Finite r \<and> 0 < r \<and> r < 100)
   \<and> (num_less (Finite 0) (progress (app w)) \<and> num_less (progress (app w)) (Finite 100)
        \<longrightarrow> step rt ts ClickUpload w = (w, []))
   \<and> (\<not> (num_less (Finite 0) (progress (app w)) \<and> num_less (progress (app w)) (Finite 100))
        \<longrightarrow> step rt ts ClickCancel w = (w, []))"
proof -
  have disabled: "upload_disabled (render s) =
     (file s = None \<or> (num_less (Finite 0) (progress s) \<and> num_less (progress s) (Finite 100)))"
    by (simp add: render_def)
  have cancel: "cancel_rendered (render s) =
     (num_less (Finite 0) (progress s) \<and> num_less (progress s) (Finite 100))"
    by (simp add: render_def)
  have no_second: "num_less (Finite 0) (progress (app w)) \<and> num_less (progress (app w)) (Finite 100)
        \<longrightarrow> step rt ts ClickUpload w = (w, [])"
    by (simp add: render_def step_def)
  have no_cancel: "\<not> (num_less (Finite 0) (progress (app w)) \<and> num_less (progress (app w)) (Finite 100))
        \<longrightarrow> step rt ts ClickCancel w = (w, [])"
    by (simp add: render_def step_def)
  from disabled cancel mid_progress_iff [of "progress s"] no_second no_cancel
  show ?thesis by blast
qed

theorem buttons_follow_progress_witness:
  "num_less (Finite 0) (progress (app world_uploading))
   \<and> num_less (progress (app world_uploading)) (Finite 100)
   \<and> upload_disabled (render (app world_uploading))
   \<and> cancel_rendered (render (app world_uploading))
   \<and> step example_runtime ''2026-11-2_5-31-0'' ClickUpload world_uploading = (world_uploading, [])
   \<and> \<not> cancel_rendered (render (app initial_world))
   \<and> step example_runtime ''2026-11-2_5-31-0'' ClickCancel initial_world = (initial_world, [])"
proof -
  have mid: "num_less (Finite 0) (progress (app world_uploading))
             \<and> num_less (progress (app world_uploading)) (Finite 100)"
    by (simp add: world_uploading_def)
  have idle: "\<not> (num_less (Finite 0) (progress (app initial_world))
                \<and> num_less (progress (app initial_world)) (Finite 100))"
    by (simp add: initial_world_def initial_state_def)
  from buttons_follow_progress
         [of "app world_uploading" world_uploading example_runtime "''2026-11-2_5-31-0''"]
       buttons_follow_progress
         [of "app initial_world" initial_world example_runtime "''2026-11-2_5-31-0''"]
       mid idle
  show ?thesis by blast
qed

lemma step_keeps_mediaId:
  "(\<And>out. ev \<noteq> FetchSettled out) \<Longrightarrow> mediaId (app (fst (step rt ts ev w))) = mediaId (app w)"
  by (cases ev)
     (auto simp: step_def react_app handleFileChange_def handleUpload_def handleCancel_def
        onError_def onProgress_def onSuccess_def render_def Let_def
        split: option.splits list.splits)

lemma step_no_success:
  "\<not> is_success ev \<Longrightarrow> pending w = 0 \<Longrightarrow>
   pending (fst (step rt ts ev w)) = 0 \<and> mediaId (app (fst (step rt ts ev w))) = mediaId (app w)"
  by (cases ev)
     (auto simp: step_def react_def handleFileChange_def handleUpload_def handleCancel_def
        onError_def onProgress_def render_def Let_def
        split: option.splits list.splits)

lemma run_no_success:
  "list_all (\<lambda>e. \<not> is_success e) evs \<Longrightarrow> pending w = 0 \<Longrightarrow>
   mediaId (app (fst (run rt ts evs w))) = mediaId (app w)"
proof (induction evs arbitrary: w)
  case Nil
  then show ?case by simp
next
  case (Cons ev evs)
  from Cons.prems have a: "\<not> is_success ev" and b: "list_all (\<lambda>e. \<not> is_success e) evs"
    by simp_all
  from step_no_success [OF a Cons.prems(2)]
  have p: "pending (fst (step rt ts ev w)) = 0"
    and m: "mediaId (app (fst (step rt ts ev w))) = mediaId (app w)"
    by simp_all
  from Cons.IH [OF b p] m show ?case by (simp add: Let_def)
qed

lemma fetch_settled_without_id:
  "\<not> carries_mediaId out \<Longrightarrow> mediaId s = JStr [] \<Longrightarrow> mediaId (fst (fetch_settled out s)) = JStr []"
  by (auto simp: fetch_settled_def carries_mediaId_def or_empty_def
      split: fetch_outcome.splits sum.splits option.splits js_error.splits)

lemma step_without_id:
  assumes "\<not> settles_with_id ev" and e: "mediaId (app w) = JStr []"
  shows "mediaId (app (fst (step rt ts ev w))) = JStr []"
proof (cases "\<exists>out. ev = FetchSettled out")
  case True
  then obtain out where ev: "ev = FetchSettled out" by blast
  with assms have "\<not> carries_mediaId out" by simp
  from fetch_settled_without_id [OF this e] e show ?thesis
    by (simp add: ev step_def react_app)
next
  case False
  then have "\<And>out. ev \<noteq> FetchSettled out" by blast
  from step_keeps_mediaId [OF this] e show ?thesis by simp
qed

lemma run_without_id:
  "list_all (\<lambda>e. \<not> settles_with_id e) evs \<Longrightarrow> mediaId (app w) = JStr [] \<Longrightarrow>
   mediaId (app (fst (run rt ts evs w))) = JStr []"
  by (induction evs arbitrary: w) (simp_all add: Let_def step_without_id)

text \<open>
  C5, as stated, fails in one point: a status request that fails leaves the media id as it
  is, so after an upload whose request delivered a media id, a later upload whose request
  fails still shows the media-info block, with the earlier id.
\<close>

theorem stale_media_id_after_failed_lookup:
  "media_info (render (app (fst (run example_runtime ''2026-11-2_5-31-0''
      [ChangeFile (Some [example_file]), ClickUpload, TusSuccess 0,
       FetchSettled (JsonParsed (JObj [(''mediaId'', JStr ''abc123'')])),
       ClickUpload, TusSuccess 1,
       FetchSettled (FetchRejected ''Failed to fetch'')] initial_world))))
   = Some (JStr ''abc123'')"
  by code_simp

text \<open>
  C5, amended. Only the end of a status request changes the media id, and such a request
  exists only after \<open>onSuccess\<close> has run: in a run from the initial state with no \<open>onSuccess\<close>
  the media id is empty. \<open>onSuccess\<close> requests \<^verbatim>\<open>/api/upload/status?filename=\<close> followed by
  the encoded metadata name. A response whose \<^verbatim>\<open>mediaId\<close> member is truthy sets the media id
  to that member; any other response that is not \<^verbatim>\<open>null\<close> sets it to the empty string; a
  request that fails, or answers \<^verbatim>\<open>null\<close>, leaves the state as it is. So from an empty media id a request that
  fails or carries no media id leaves it empty and the media-info block unrendered, and as
  long as no request has carried a media id, the media id is empty and the block is not
  rendered.
\<close>

theorem media_id_from_status_lookup:
  "((\<forall>out. ev \<noteq> FetchSettled out) \<longrightarrow> mediaId (app (fst (step rt ts ev w))) = mediaId (app w))
   \<and> (list_all (\<lambda>e. \<not> is_success e) evs
        \<longrightarrow> mediaId (app (fst (run rt ts evs initial_world))) = JStr [])
   \<and> snd (onSuccess ts f s) =
        [Fetch (''/api/upload/status?filename='' @ encodeURIComponent (ts @ '' - '' @ name f)) None]
   \<and> (get_property data ''mediaId'' = Inr (Some v) \<and> truthy v
        \<longrightarrow> fetch_settled (JsonParsed data) s = (s\<lparr>mediaId := v\<rparr>, []))
   \<and> fst (fetch_settled (FetchRejected err) s) = s
   \<and> fst (fetch_settled (JsonRejected err) s) = s
   \<and> fst (fetch_settled (JsonParsed JNull) s) = s
   \<and> (\<not> carries_mediaId (JsonParsed data) \<and> data \<noteq> JNull
        \<longrightarrow> mediaId (fst (fetch_settled (JsonParsed data) s)) = JStr [])
   \<and> (\<not> carries_mediaId out \<and> mediaId s = JStr []
        \<longrightarrow> mediaId (fst (fetch_settled out s)) = JStr []
            \<and> media_info (render (fst (fetch_settled out s))) = None)
   \<and> (list_all (\<lambda>e. \<not> settles_with_id e) evs
        \<longrightarrow> mediaId (app (fst (run rt ts evs initial_world))) = JStr []
            \<and> media_info (render (app (fst (run rt ts evs initial_world)))) = None)"
proof -
  have init: "mediaId (app initial_world) = JStr []" "pending initial_world = 0"
    by (simp_all add: initial_world_def initial_state_def)
  have only_settled:
    "(\<forall>out. ev \<noteq> FetchSettled out) \<longrightarrow> mediaId (app (fst (step rt ts ev w))) = mediaId (app w)"
    using step_keeps_mediaId by blast
  have after_success: "list_all (\<lambda>e. \<not> is_success e) evs
        \<longrightarrow> mediaId (app (fst (run rt ts evs initial_world))) = JStr []"
    using run_no_success [of evs initial_world rt ts] init by simp
  have request: "snd (onSuccess ts f s) =
        [Fetch (''/api/upload/status?filename='' @ encodeURIComponent (ts @ '' - '' @ name f)) None]"
    by (simp add: onSuccess_def status_url_def)
  have from_field: "get_property data ''mediaId'' = Inr (Some v) \<and> truthy v
        \<longrightarrow> fetch_settled (JsonParsed data) s = (s\<lparr>mediaId := v\<rparr>, [])"
    by (simp add: fetch_settled_def or_empty_def)
  have rejected: "fst (fetch_settled (FetchRejected err) s) = s"
    "fst (fetch_settled (JsonRejected err) s) = s"
    "fst (fetch_settled (JsonParsed JNull) s) = s"
    by (simp_all add: fetch_settled_def)
  have cleared: "\<not> carries_mediaId (JsonParsed data) \<and> data \<noteq> JNull
        \<longrightarrow> mediaId (fst (fetch_settled (JsonParsed data) s)) = JStr []"
    by (cases data)
       (auto simp: fetch_settled_def carries_mediaId_def or_empty_def split: option.splits)
  have render_empty: "\<And>t. mediaId t = JStr [] \<Longrightarrow> media_info (render t) = None"
    by (simp add: render_def)
  have stays: "\<not> carries_mediaId out \<and> mediaId s = JStr []
        \<longrightarrow> mediaId (fst (fetch_settled out s)) = JStr []
            \<and> media_info (render (fst (fetch_settled out s))) = None"
    using fetch_settled_without_id render_empty by blast
  have never: "list_all (\<lambda>e. \<not> settles_with_id e) evs
        \<longrightarrow> mediaId (app (fst (run rt ts evs initial_world))) = JStr []
            \<and> media_info (render (app (fst (run rt ts evs initial_world)))) = None"
    using run_without_id [of evs initial_world rt ts] init render_empty by blast
  from only_settled after_success request from_field rejected cleared stays never
  show ?thesis by blast
qed

theorem media_id_from_status_lookup_witness:
  "fetch_settled (JsonParsed (JObj [(''mediaId'', JStr ''abc123'')])) initial_state
     = (initial_state\<lparr>mediaId := JStr ''abc123''\<rparr>, [])
   \<and> \<not> carries_mediaId (FetchRejected ''Failed to fetch'')
   \<and> mediaId (fst (fetch_settled (FetchRejected ''Failed to fetch'') initial_state)) = JStr []
   \<and> \<not> carries_mediaId (JsonParsed (JObj [(''status'', JStr ''queued'')]))
   \<and> mediaId (fst (fetch_settled (JsonParsed (JObj [(''status'', JStr ''queued'')]))
        (initial_state\<lparr>mediaId := JStr ''abc123''\<rparr>))) = JStr []
   \<and> media_info (render (fst (fetch_settled
        (JsonParsed (JObj [(''status'', JStr ''queued'')])) initial_state))) = None
   \<and> mediaId (app (fst (run example_runtime ''2026-11-2_5-31-0''
        [ChangeFile (Some [example_file]), ClickUpload,
         FetchSettled (JsonParsed (JObj [(''mediaId'', JStr ''abc123'')]))] initial_world)))
     = JStr []
   \<and> media_info (render (app (fst (run example_runtime ''2026-11-2_5-31-0''
        [ChangeFile (Some [example_file]), ClickUpload, TusSuccess 0,
         FetchSettled (FetchRejected ''Failed to fetch'')] initial_world)))) = None"
proof -
  have g: "get_property (JObj [(''mediaId'', JStr ''abc123'')]) ''mediaId'' = Inr (Some (JStr ''abc123''))
           \<and> truthy (JStr ''abc123'')"
    by simp
  have r: "\<not> carries_mediaId (FetchRejected ''Failed to fetch'')"
    by (simp add: carries_mediaId_def)
  have q: "\<not> carries_mediaId (JsonParsed (JObj [(''status'', JStr ''queued'')]))"
    by (simp add: carries_mediaId_def)
  have i: "mediaId initial_state = JStr []"
    by (simp add: initial_state_def)
  have n1: "list_all (\<lambda>e. \<not> is_success e)
        [ChangeFile (Some [example_file]), ClickUpload,
         FetchSettled (JsonParsed (JObj [(''mediaId'', JStr ''abc123'')]))]"
    by simp
  have n2: "list_all (\<lambda>e. \<not> settles_with_id e)
        [ChangeFile (Some [example_file]), ClickUpload, TusSuccess 0,
         FetchSettled (FetchRejected ''Failed to fetch'')]"
    by (simp add: carries_mediaId_def)
  from media_id_from_status_lookup
         [where rt = example_runtime and ts = "''2026-11-2_5-31-0''"
            and evs = "[ChangeFile (Some [example_file]), ClickUpload,
              FetchSettled (JsonParsed (JObj [(''mediaId'', JStr ''abc123'')]))]"
            and s = initial_state and data = "JObj [(''mediaId'', JStr ''abc123'')]"
            and v = "JStr ''abc123''" and out = "FetchRejected ''Failed to fetch''"]
       media_id_from_status_lookup
         [where rt = example_runtime and ts = "''2026-11-2_5-31-0''"
            and evs = "[ChangeFile (Some [example_file]), ClickUpload, TusSuccess 0,
              FetchSettled (FetchRejected ''Failed to fetch'')]"
            and s = initial_state and data = "JObj [(''mediaId'', JStr ''abc123'')]"
            and v = "JStr ''abc123''"
            and out = "JsonParsed (JObj [(''status'', JStr ''queued'')])"]
       media_id_from_status_lookup
         [where s = "initial_state\<lparr>mediaId := JStr ''abc123''\<rparr>"
            and data = "JObj [(''status'', JStr ''queued'')]"]
       g r q i n1 n2
  show ?thesis by blast
qed


lemma hex_digits_read_back: "list_all (\<lambda>n. hex_value (hex_digit n) = n) [0..<16]"
  by code_simp

lemma hex_value_hex_digit: "n < 16 \<Longrightarrow> hex_value (hex_digit n) = n"
  using hex_digits_read_back by (simp add: list_all_iff)

lemma of_char_less_256: "(of_char c :: nat) < 256"
  by (cases c) simp

lemma decode_percent_encode:
  "decodeURIComponent (percent_encode c @ rest) = c # decodeURIComponent rest"
proof -
  have d: "(of_char c :: nat) div 16 < 16"
    using of_char_less_256 [of c] by arith
  have m: "(of_char c :: nat) mod 16 < 16"
    by simp
  have "hex_value (hex_digit ((of_char c :: nat) div 16)) * 16
          + hex_value (hex_digit ((of_char c :: nat) mod 16)) = of_char c"
    by (simp add: hex_value_hex_digit [OF d] hex_value_hex_digit [OF m])
  then show ?thesis
    by (simp add: percent_encode_def)
qed

lemma decode_plain:
  "c \<noteq> CHR ''%'' \<Longrightarrow> decodeURIComponent (c # rest) = c # decodeURIComponent rest"
  by (cases rest rule: decodeURIComponent.cases) simp_all

lemma unreserved_not_percent: "uri_unreserved c \<Longrightarrow> c \<noteq> CHR ''%''"
  by (auto simp: uri_unreserved_def)

lemma decode_encode: "decodeURIComponent (encodeURIComponent t) = t"
proof (induction t)
  case Nil
  show ?case by (simp add: encodeURIComponent_def)
next
  case (Cons c t)
  have step: "encodeURIComponent (c # t) =
      (if uri_unreserved c then [c] else percent_encode c) @ encodeURIComponent t"
    by (simp add: encodeURIComponent_def)
  show ?case
  proof (cases "uri_unreserved c")
    case True
    with step Cons.IH unreserved_not_percent [OF True] show ?thesis
      by (simp add: decode_plain)
  next
    case False
    with step Cons.IH show ?thesis
      by (simp add: decode_percent_encode)
  qed
qed

lemma step_registered:
  "list_all (registered ts) (uploads w) \<Longrightarrow> list_all (registered ts) (uploads (fst (step rt ts ev w)))"
  by (cases ev)
     (auto simp: step_def react_def handleFileChange_def handleUpload_def handleCancel_def
        onError_def onProgress_def onSuccess_def fetch_settled_def registered_def Let_def
        split: option.splits list.splits fetch_outcome.splits sum.splits js_error.splits)

lemma run_registered:
  "list_all (registered ts) (uploads w) \<Longrightarrow> list_all (registered ts) (uploads (fst (run rt ts evs w)))"
  by (induction evs arbitrary: w) (simp_all add: Let_def step_registered)

subsection \<open>The asset name\<close>

text \<open>
  C9. The instance \<open>handleUpload\<close> creates for the selected file carries the metadata name
  \<^verbatim>\<open><timestamp> - <file.name>\<close>, and \<open>onSuccess\<close> of that instance asks for the status with
  the \<^verbatim>\<open>filename\<close> parameter that encodes the same string: decoding the parameter gives the
  name back. In every state reached from the initial one this holds for each instance
  created so far, whatever file is selected by then; the timestamp is the one value \<open>ts\<close>
  of the module.
\<close>

theorem asset_name_agrees:
  "(file s = Some f \<longrightarrow>
      created (snd (handleUpload ts s)) = [\<lparr>upload_file = f, options = upload_options ts f\<rparr>]
      \<and> map_of (metadata (upload_options ts f)) ''name'' = Some (ts @ '' - '' @ name f))
   \<and> snd (onSuccess ts f s') =
       [Fetch (''/api/upload/status?filename='' @ encodeURIComponent (ts @ '' - '' @ name f)) None]
   \<and> decodeURIComponent (encodeURIComponent (ts @ '' - '' @ name f)) = ts @ '' - '' @ name f
   \<and> (i < length (uploads (fst (run rt ts evs initial_world))) \<longrightarrow>
        map_of (metadata (options (uploads (fst (run rt ts evs initial_world)) ! i))) ''name''
          = Some (ts @ '' - '' @ name (upload_file (uploads (fst (run rt ts evs initial_world)) ! i)))
        \<and> snd (step rt ts (TusSuccess i) (fst (run rt ts evs initial_world)))
          = [Fetch (''/api/upload/status?filename='' @ encodeURIComponent
               (ts @ '' - '' @ name (upload_file (uploads (fst (run rt ts evs initial_world)) ! i)))) None])"
proof -
  have creation: "file s = Some f \<longrightarrow>
      created (snd (handleUpload ts s)) = [\<lparr>upload_file = f, options = upload_options ts f\<rparr>]
      \<and> map_of (metadata (upload_options ts f)) ''name'' = Some (ts @ '' - '' @ name f)"
    by (simp add: handleUpload_def upload_options_def Let_def)
  have lookup: "snd (onSuccess ts f s') =
       [Fetch (''/api/upload/status?filename='' @ encodeURIComponent (ts @ '' - '' @ name f)) None]"
    by (simp add: onSuccess_def status_url_def)
  have same: "decodeURIComponent (encodeURIComponent (ts @ '' - '' @ name f)) = ts @ '' - '' @ name f"
    by (rule decode_encode)
  have reachable: "i < length (uploads (fst (run rt ts evs initial_world))) \<longrightarrow>
        map_of (metadata (options (uploads (fst (run rt ts evs initial_world)) ! i))) ''name''
          = Some (ts @ '' - '' @ name (upload_file (uploads (fst (run rt ts evs initial_world)) ! i)))
        \<and> snd (step rt ts (TusSuccess i) (fst (run rt ts evs initial_world)))
          = [Fetch (''/api/upload/status?filename='' @ encodeURIComponent
               (ts @ '' - '' @ name (upload_file (uploads (fst (run rt ts evs initial_world)) ! i)))) None]"
  proof
    assume i: "i < length (uploads (fst (run rt ts evs initial_world)))"
    have "list_all (registered ts) (uploads initial_world)"
      by (simp add: initial_world_def)
    then have "list_all (registered ts) (uploads (fst (run rt ts evs initial_world)))"
      by (rule run_registered)
    with i have "registered ts (uploads (fst (run rt ts evs initial_world)) ! i)"
      by (simp add: list_all_length)
    then have n: "map_of (metadata (options (uploads (fst (run rt ts evs initial_world)) ! i))) ''name''
          = Some (ts @ '' - '' @ name (upload_file (uploads (fst (run rt ts evs initial_world)) ! i)))"
      by (simp add: registered_def upload_options_def)
    have e: "snd (step rt ts (TusSuccess i) (fst (run rt ts evs initial_world)))
          = [Fetch (''/api/upload/status?filename='' @ encodeURIComponent
               (ts @ '' - '' @ name (upload_file (uploads (fst (run rt ts evs initial_world)) ! i)))) None]"
      using i by (simp add: step_def react_def onSuccess_def status_url_def)
    from n e show "map_of (metadata (options (uploads (fst (run rt ts evs initial_world)) ! i))) ''name''
          = Some (ts @ '' - '' @ name (upload_file (uploads (fst (run rt ts evs initial_world)) ! i)))
        \<and> snd (step rt ts (TusSuccess i) (fst (run rt ts evs initial_world)))
          = [Fetch (''/api/upload/status?filename='' @ encodeURIComponent
               (ts @ '' - '' @ name (upload_file (uploads (fst (run rt ts evs initial_world)) ! i)))) None]"
      by blast
  qed
  from creation lookup same reachable show ?thesis by blast
qed

theorem asset_name_agrees_witness:
  "file (app world_uploading) = Some example_file
   \<and> map_of (metadata (options example_upload)) ''name'' = Some ''2026-11-2_5-31-0 - clip 1.mp4''
   \<and> snd (onSuccess ''2026-11-2_5-31-0'' example_file (app world_uploading))
       = [Fetch ''/api/upload/status?filename=2026-11-2_5-31-0%20-%20clip%201.mp4'' None]
   \<and> decodeURIComponent ''2026-11-2_5-31-0%20-%20clip%201.mp4'' = ''2026-11-2_5-31-0 - clip 1.mp4''
   \<and> 0 < length (uploads world_uploading)
   \<and> snd (step example_runtime ''2026-11-2_5-31-0'' (TusSuccess 0) world_uploading)
       = [Fetch ''/api/upload/status?filename=2026-11-2_5-31-0%20-%20clip%201.mp4'' None]"
proof -
  have sel: "file (app world_uploading) = Some example_file"
    by (simp add: world_uploading_def)
  have len: "0 < length (uploads world_uploading)"
    by (simp add: world_uploading_def)
  have enc: "encodeURIComponent ''2026-11-2_5-31-0 - clip 1.mp4''
               = ''2026-11-2_5-31-0%20-%20clip%201.mp4''"
    by (simp add: encodeURIComponent_def uri_unreserved_def percent_encode_def hex_digit_def)
  have nm: "name example_file = ''clip 1.mp4''"
    by (simp add: example_file_def)
  have up: "uploads world_uploading ! 0 = example_upload" "upload_file example_upload = example_file"
    "options example_upload = upload_options ''2026-11-2_5-31-0'' example_file"
    by (simp_all add: world_uploading_def example_upload_def)
  from asset_name_agrees
         [where s = "app world_uploading" and f = example_file and ts = "''2026-11-2_5-31-0''"
            and s' = "app world_uploading" and rt = example_runtime and i = 0
            and evs = "[ChangeFile (Some [example_file]), ClickUpload,
                        TusProgress 0 (Finite 52428800) (Finite 104857600)]"]
       sel len enc nm up example_run
  show ?thesis by simp
qed

subsection \<open>The calls that leave the component\<close>

lemma cleanup_calls: "list_all tus_library_call (cleanup uo)"
  by (simp add: cleanup_def split: option.splits)

lemma step_component_calls: "list_all component_call (snd (step rt ts ev w))"
  by (cases ev)
     (auto simp: step_def react_def handleFileChange_def handleUpload_def handleCancel_def
        onError_def onProgress_def onSuccess_def fetch_settled_def cleanup_def status_url_def
        component_call_def Let_def
        split: option.splits list.splits fetch_outcome.splits sum.splits js_error.splits)

lemma run_component_calls: "list_all component_call (snd (run rt ts evs w))"
  by (induction evs arbitrary: w) (simp_all add: Let_def step_component_calls)

lemma status_fetch_no_tus:
  "list_all component_call es \<Longrightarrow> list_all (\<lambda>r. \<not> tus_request r) (fetch_requests es)"
proof (induction es rule: fetch_requests.induct)
  case 1
  show ?case by simp
next
  case (2 u i es)
  from "2.prems" have head: "component_call (Fetch u i)" and rest: "list_all component_call es"
    by simp_all
  from head have i: "i = None"
    by (simp add: component_call_def)
  have "\<not> tus_request (fetch_request u None)"
    unfolding tus_request_def fetch_request_def by code_simp
  with i rest "2.IH" show ?case by simp
qed (simp_all)

lemma getHeader_setHeader: "getHeader k (setHeader k v hs) = Some v"
  by (simp add: getHeader_def setHeader_def)

lemma getHeader_filter_other:
  "map lower_char k \<noteq> map lower_char k' \<Longrightarrow>
   getHeader k (filter (\<lambda>h. map lower_char (fst h) \<noteq> map lower_char k') hs) = getHeader k hs"
  by (induction hs) (auto simp: getHeader_def)

lemma getHeader_setHeader_other:
  "map lower_char k \<noteq> map lower_char k' \<Longrightarrow> getHeader k (setHeader k' v hs) = getHeader k hs"
  using getHeader_filter_other [of k k' hs] by (simp add: setHeader_def getHeader_def)

lemma getHeader_connection_header_other:
  "map lower_char k \<noteq> ''connection'' \<Longrightarrow> getHeader k (connection_header hs) = getHeader k hs"
proof -
  assume k: "map lower_char k \<noteq> ''connection''"
  have l: "map lower_char ''connection'' = ''connection''"
    by code_simp
  from k l have "getHeader k (setHeader ''connection'' ''close'' hs) = getHeader k hs"
    by (simp add: getHeader_setHeader_other)
  then show ?thesis
    by (simp add: connection_header_def split: option.splits)
qed

lemma tusProxy_authorization:
  "getHeader ''Authorization'' (req_headers (outgoing (tusProxy c req)))
     = Some (''Bearer '' @ API_TOKEN c)"
  by (simp add: tusProxy_def onProxyReq_def getHeader_setHeader)

lemma tusProxy_passes_header:
  assumes "\<not> proxy_header k"
  shows "getHeader k (req_headers (outgoing (tusProxy c req))) = getHeader k (req_headers req)"
proof -
  have l: "map lower_char ''Authorization'' = ''authorization''"
    "map lower_char ''host'' = ''host''"
    by code_simp+
  from assms have k: "map lower_char k \<noteq> ''authorization''" "map lower_char k \<noteq> ''host''"
    "map lower_char k \<noteq> ''connection''"
    by (simp_all add: proxy_header_def)
  from k l show ?thesis
    by (simp add: tusProxy_def onProxyReq_def getHeader_setHeader_other
        getHeader_connection_header_other)
qed

lemma pathname_prefix: "prefix p (pathname u) \<Longrightarrow> prefix p u"
proof -
  assume a: "prefix p (pathname u)"
  have "prefix (pathname u) u"
    unfolding pathname_def by (rule takeWhile_is_prefix)
  with a show ?thesis by (rule prefix_order.trans)
qed

lemma lower_upload_path: "map lower_char ''/api/upload'' = ''/api/upload''"
  by code_simp

lemma mounted_at_upload:
  assumes "p = ''/api/upload'' @ rest" and "rest = [] \<or> hd rest = CHR ''/''"
  shows "mounted_at ''/api/upload'' p"
proof -
  from assms(1) have pre: "prefix ''/api/upload'' (map lower_char p)"
    using lower_upload_path by (simp add: prefix_def)
  from assms(1) have d: "drop (length ''/api/upload'') p = rest"
    by simp
  from assms(2) have "(case rest of [] \<Rightarrow> True | c # r \<Rightarrow> c = CHR ''/'')"
    by (cases rest) auto
  with pre d show ?thesis
    unfolding mounted_at_def by simp
qed

text \<open>
  C7. Whatever the events, the component calls the upload library (\<^verbatim>\<open>new tus.Upload\<close>,
  \<^verbatim>\<open>start\<close>, \<^verbatim>\<open>abort\<close>), the console, and \<^verbatim>\<open>fetch\<close> with the status URL and no second
  argument, and nothing else; unmounting calls only the library. So no request the
  component makes with \<^verbatim>\<open>fetch\<close> is a request of the tus protocol: none has one of its
  methods or headers. The proxy does not read or write such a request either: it passes
  on the method, the body and every header but Authorization, Host and Connection.
\<close>

theorem tus_only_through_library:
  "list_all component_call (snd (run rt ts evs w))
   \<and> list_all tus_library_call (unmount w)
   \<and> list_all (\<lambda>r. \<not> tus_request r) (fetch_requests (snd (run rt ts evs w)))
   \<and> req_method (outgoing (tusProxy c req)) = req_method req
   \<and> body (outgoing (tusProxy c req)) = body req
   \<and> (\<not> proxy_header k \<longrightarrow>
        getHeader k (req_headers (outgoing (tusProxy c req))) = getHeader k (req_headers req))"
proof -
  have passes: "req_method (outgoing (tusProxy c req)) = req_method req
                \<and> body (outgoing (tusProxy c req)) = body req"
    by (simp add: tusProxy_def onProxyReq_def)
  have leaving: "list_all tus_library_call (unmount w)"
    by (simp add: unmount_def cleanup_calls)
  have own: "list_all (\<lambda>r. \<not> tus_request r) (fetch_requests (snd (run rt ts evs w)))"
    using run_component_calls by (rule status_fetch_no_tus)
  from run_component_calls [of rt ts evs w] leaving own passes tusProxy_passes_header [of k c req]
  show ?thesis by blast
qed

theorem tus_only_through_library_witness:
  "\<not> component_call example_handmade
   \<and> list_all tus_request (fetch_requests [example_handmade])
   \<and> \<not> proxy_header ''Tus-Resumable''
   \<and> getHeader ''Tus-Resumable''
        (req_headers (outgoing (tusProxy example_credentials example_request)))
      = Some ''1.0.0''
   \<and> tus_request example_request
   \<and> fetch_requests (snd (run example_runtime ''2026-11-2_5-31-0''
        [ChangeFile (Some [example_file]), ClickUpload, TusSuccess 0] initial_world))
      = [\<lparr>req_method = ''GET'',
          url = ''/api/upload/status?filename=2026-11-2_5-31-0%20-%20clip%201.mp4'',
          req_headers = [], body = []\<rparr>]"
proof -
  have a: "\<not> proxy_header ''Tus-Resumable''"
    by code_simp
  have h: "\<not> component_call example_handmade"
    "list_all tus_request (fetch_requests [example_handmade])"
    by code_simp+
  have b: "getHeader ''Tus-Resumable'' (req_headers example_request) = Some ''1.0.0''"
    by code_simp
  have t: "tus_request example_request"
    by code_simp
  have f: "fetch_requests (snd (run example_runtime ''2026-11-2_5-31-0''
        [ChangeFile (Some [example_file]), ClickUpload, TusSuccess 0] initial_world))
      = [\<lparr>req_method = ''GET'',
          url = ''/api/upload/status?filename=2026-11-2_5-31-0%20-%20clip%201.mp4'',
          req_headers = [], body = []\<rparr>]"
    by code_simp
  from tus_only_through_library
         [where k = "''Tus-Resumable''" and c = example_credentials and req = example_request]
       a h b t f
  show ?thesis by simp
qed

subsection \<open>The proxy\<close>

text \<open>
  C2, as stated, fails for two kinds of request whose path begins with \<^verbatim>\<open>/api/upload\<close>: one
  whose path goes on with another letter, as \<^verbatim>\<open>/api/uploads/x\<close>, is not under the mount and
  gets 404; and an OPTIONS request is answered by \<^verbatim>\<open>cors()\<close> with 204.
\<close>

theorem routing_and_preflight:
  "prefix ''/api/upload'' (pathname ''/api/uploads/x'')
   \<and> server example_credentials
         \<lparr>req_method = ''GET'', url = ''/api/uploads/x'', req_headers = [], body = []\<rparr>
       = Answered 404
   \<and> prefix ''/api/upload'' (pathname ''/api/upload'')
   \<and> server example_credentials
         \<lparr>req_method = ''OPTIONS'', url = ''/api/upload'', req_headers = [], body = []\<rparr>
       = Answered 204"
  by code_simp

text \<open>
  C2, amended. A request that is not an OPTIONS request and whose path is \<^verbatim>\<open>/api/upload\<close> or
  continues it with \<^verbatim>\<open>/\<close> is forwarded to the target \<^verbatim>\<open>https://api.cloudflare.com\<close> with that
  prefix of the URL replaced by \<^verbatim>\<open>/client/v4/accounts/<ACCOUNT_ID>/stream\<close> and the rest of
  the URL kept, with the Authorization header set to \<^verbatim>\<open>Bearer <API_TOKEN>\<close>, and with its
  method and body. The server forwards exactly the requests that are not OPTIONS requests
  and are under the mount.
\<close>

theorem server_forwards_mounted_requests:
  assumes "\<not> preflight req"
    and "pathname (url req) = ''/api/upload'' @ rest"
    and "rest = [] \<or> hd rest = CHR ''/''"
  shows "server c req = Forwarded (tusProxy c req)
       \<and> target (tusProxy c req) = ''https://api.cloudflare.com''
       \<and> url req = ''/api/upload'' @ drop 11 (url req)
       \<and> url (outgoing (tusProxy c req))
           = ''/client/v4/accounts/'' @ ACCOUNT_ID c @ ''/stream'' @ drop 11 (url req)
       \<and> getHeader ''Authorization'' (req_headers (outgoing (tusProxy c req)))
           = Some (''Bearer '' @ API_TOKEN c)
       \<and> req_method (outgoing (tusProxy c req)) = req_method req
       \<and> body (outgoing (tusProxy c req)) = body req
       \<and> ((\<exists>p. server c req' = Forwarded p)
            \<longleftrightarrow> \<not> preflight req' \<and> mounted_at ''/api/upload'' (pathname (url req')))"
proof -
  from assms(2,3) have m: "mounted_at ''/api/upload'' (pathname (url req))"
    by (rule mounted_at_upload)
  with assms(1) have fwd: "server c req = Forwarded (tusProxy c req)"
    by (simp add: server_def)
  from assms(2) have "prefix ''/api/upload'' (pathname (url req))"
    by (simp add: prefix_def)
  then have pre: "prefix ''/api/upload'' (url req)"
    by (rule pathname_prefix)
  then obtain tail where tail: "url req = ''/api/upload'' @ tail"
    by (auto simp: prefix_def)
  then have split: "url req = ''/api/upload'' @ drop 11 (url req)"
    by simp
  have rewritten: "url (outgoing (tusProxy c req))
           = ''/client/v4/accounts/'' @ ACCOUNT_ID c @ ''/stream'' @ drop 11 (url req)"
    using pre tail by (simp add: tusProxy_def onProxyReq_def pathRewrite_def)
  have kept: "target (tusProxy c req) = ''https://api.cloudflare.com''
       \<and> req_method (outgoing (tusProxy c req)) = req_method req
       \<and> body (outgoing (tusProxy c req)) = body req"
    by (simp add: tusProxy_def onProxyReq_def)
  have exactly: "(\<exists>p. server c req' = Forwarded p)
            \<longleftrightarrow> \<not> preflight req' \<and> mounted_at ''/api/upload'' (pathname (url req'))"
    by (simp add: server_def)
  from fwd split rewritten kept exactly tusProxy_authorization [of c req] show ?thesis
    by blast
qed

theorem server_forwards_mounted_requests_witness:
  "\<not> preflight example_request
   \<and> pathname (url example_request) = ''/api/upload'' @ ''/ea0a1c8e''
   \<and> server example_credentials example_request
       = Forwarded (tusProxy example_credentials example_request)
   \<and> url (outgoing (tusProxy example_credentials example_request))
       = ''/client/v4/accounts/<ACCOUNT_ID>/stream/ea0a1c8e?direct=1''
   \<and> getHeader ''Authorization''
         (req_headers (outgoing (tusProxy example_credentials example_request)))
       = Some ''Bearer <API_TOKEN>''
   \<and> getHeader ''Connection''
         (req_headers (outgoing (tusProxy example_credentials example_request)))
       = Some ''close''
   \<and> req_method (outgoing (tusProxy example_credentials example_request)) = ''PATCH''"
proof -
  have np: "\<not> preflight example_request"
    by code_simp
  have pn: "pathname (url example_request) = ''/api/upload'' @ ''/ea0a1c8e''"
    by code_simp
  have bd: "''/ea0a1c8e'' = [] \<or> hd ''/ea0a1c8e'' = CHR ''/''"
    by simp
  have cl: "getHeader ''Connection''
         (req_headers (outgoing (tusProxy example_credentials example_request)))
       = Some ''close''"
    by code_simp
  have u: "drop 11 (url example_request) = ''/ea0a1c8e?direct=1''"
    "req_method example_request = ''PATCH''"
    "ACCOUNT_ID example_credentials = ''<ACCOUNT_ID>''"
    "API_TOKEN example_credentials = ''<API_TOKEN>''"
    by (simp_all add: example_request_def example_credentials_def)
  from server_forwards_mounted_requests [OF np pn bd, of example_credentials] np pn cl u
  show ?thesis by simp
qed

subsection \<open>The credential\<close>

lemma tusProxy_authorized: "authorized c (tusProxy c req)"
  unfolding authorized_def by (rule tusProxy_authorization)

lemma step_addressed: "list_all addressed (snd (step rt ts ev w))"
  by (cases ev)
     (auto simp: step_def react_def handleFileChange_def handleUpload_def handleCancel_def
        onError_def onProgress_def onSuccess_def fetch_settled_def cleanup_def status_url_def
        upload_options_def fetch_request_def getHeader_def Let_def
        split: option.splits list.splits fetch_outcome.splits sum.splits js_error.splits)

lemma run_addressed: "list_all addressed (snd (run rt ts evs w))"
  by (induction evs arbitrary: w) (simp_all add: Let_def step_addressed)

lemma server_forwarded: "server c req = Forwarded p \<Longrightarrow> p = tusProxy c req"
  by (auto simp: server_def split: if_splits)

lemma server_answered: "(server c1 req = Answered n) = (server c2 req = Answered n)"
  by (simp add: server_def)

lemma deliver_outcome: "fst (deliver c1 rt origin req ans) = fst (deliver c2 rt origin req ans)"
proof (cases "preflight (req\<lparr>url := path_at_proxy (url req)\<rparr>)
              \<or> \<not> mounted_at ''/api/upload'' (pathname (url (req\<lparr>url := path_at_proxy (url req)\<rparr>)))")
  case True
  then show ?thesis
    by (auto simp: deliver_def server_def)
next
  case False
  then show ?thesis
    by (auto simp: deliver_def server_def split: answer.splits)
qed

lemma deliver_upstream:
  "list_all (authorized c)
     (snd (deliver c rt origin req ans))"
  by (auto simp: deliver_def server_def tusProxy_authorized split: answer.splits)

lemma system_step_client:
  "fst (system_step c1 rt ts origin sev st) = fst (system_step c2 rt ts origin sev st)
   \<and> fst (snd (system_step c1 rt ts origin sev st)) = fst (snd (system_step c2 rt ts origin sev st))"
proof (cases sev)
  case (Browser ev)
  then show ?thesis by (simp add: system_step_def Let_def)
next
  case (StatusAnswer ans)
  show ?thesis
  proof (cases "in_flight st")
    case Nil
    with StatusAnswer show ?thesis by (simp add: system_step_def)
  next
    case (Cons req rest)
    with StatusAnswer deliver_outcome [of c1 rt origin req ans c2] show ?thesis
      by (simp add: system_step_def Let_def)
  qed
next
  case (LibraryRequest req)
  then show ?thesis by (simp add: system_step_def)
qed

lemma system_step_upstream:
  "list_all (authorized c)
     (snd (snd (system_step c rt ts origin sev st)))"
proof (cases sev)
  case (Browser ev)
  then show ?thesis by (simp add: system_step_def Let_def)
next
  case (StatusAnswer ans)
  show ?thesis
  proof (cases "in_flight st")
    case Nil
    with StatusAnswer show ?thesis by (simp add: system_step_def)
  next
    case (Cons req rest)
    with StatusAnswer deliver_upstream [of c rt origin req ans] show ?thesis
      by (simp add: system_step_def Let_def)
  qed
next
  case (LibraryRequest req)
  then show ?thesis
    by (auto simp: system_step_def server_def tusProxy_authorized)
qed

lemma system_step_addressed:
  "list_all addressed (fst (snd (system_step c rt ts origin sev st)))"
proof (cases sev)
  case (Browser ev)
  then show ?thesis by (simp add: system_step_def Let_def step_addressed)
next
  case (StatusAnswer ans)
  then show ?thesis
    by (cases "in_flight st") (simp_all add: system_step_def Let_def step_addressed)
next
  case (LibraryRequest req)
  then show ?thesis by (simp add: system_step_def)
qed

lemma system_run_client:
  "fst (system_run c1 rt ts origin sevs st) = fst (system_run c2 rt ts origin sevs st)
   \<and> fst (snd (system_run c1 rt ts origin sevs st)) = fst (snd (system_run c2 rt ts origin sevs st))"
proof (induction sevs arbitrary: st)
  case Nil
  show ?case by simp
next
  case (Cons sev sevs)
  from system_step_client [of c1 rt ts origin sev st c2]
  have s: "fst (system_step c1 rt ts origin sev st) = fst (system_step c2 rt ts origin sev st)"
    and e: "fst (snd (system_step c1 rt ts origin sev st))
            = fst (snd (system_step c2 rt ts origin sev st))"
    by simp_all
  from Cons.IH [of "fst (system_step c2 rt ts origin sev st)"] s e show ?case
    by (simp add: Let_def)
qed

lemma system_run_upstream:
  "list_all (authorized c)
     (snd (snd (system_run c rt ts origin sevs st)))"
  by (induction sevs arbitrary: st) (simp_all add: Let_def system_step_upstream)

lemma system_run_addressed:
  "list_all addressed (fst (snd (system_run c rt ts origin sevs st)))"
  by (induction sevs arbitrary: st) (simp_all add: Let_def system_step_addressed)

text \<open>
  C3, as stated, fails in one point: the status request of \<open>onSuccess\<close> is addressed by a URL
  relative to the origin of the page, not by the endpoint \<^verbatim>\<open>http://localhost:3001/api/upload\<close>;
  from a page of another origin it does not reach the proxy.
\<close>

theorem status_lookup_not_at_endpoint:
  "snd (onSuccess ''2026-11-2_5-31-0'' example_file initial_state)
     = [Fetch ''/api/upload/status?filename=2026-11-2_5-31-0%20-%20clip%201.mp4'' None]
   \<and> \<not> prefix ''http://localhost:3001/api/upload''
         ''/api/upload/status?filename=2026-11-2_5-31-0%20-%20clip%201.mp4''
   \<and> \<not> reaches_proxy ''http://localhost:5173''
         ''/api/upload/status?filename=2026-11-2_5-31-0%20-%20clip%201.mp4''"
  by code_simp

text \<open>
  C3, amended. Every request the component constructs is addressed either to the endpoint
  \<^verbatim>\<open>http://localhost:3001/api/upload\<close> (the upload) or to \<^verbatim>\<open>/api/upload/status?filename=...\<close>
  relative to the origin of the page (the status request), and sets no Authorization
  header. The credential is put on a request by the proxy alone: whatever the server
  forwards, for the library or for the component, leaves with the Authorization header of
  the server's token, also when the request came with one of its own. And the credential
  does not interfere with what the client observes: for the same events, requests of the
  library and answers of the upstream, the state of the component and all it does are the
  same for any two credentials of the server.
\<close>

theorem credential_stays_in_server:
  "list_all addressed (snd (run rt ts evs w))
   \<and> list_all addressed (fst (snd (system_run c1 rt ts origin sevs st)))
   \<and> fst (system_run c1 rt ts origin sevs st) = fst (system_run c2 rt ts origin sevs st)
   \<and> fst (snd (system_run c1 rt ts origin sevs st)) = fst (snd (system_run c2 rt ts origin sevs st))
   \<and> list_all (authorized c1)
        (snd (snd (system_run c1 rt ts origin sevs st)))
   \<and> (server c1 req = Forwarded p
        \<longrightarrow> getHeader ''Authorization'' (req_headers (outgoing p))
              = Some (''Bearer '' @ API_TOKEN c1))"
proof -
  have injected: "server c1 req = Forwarded p
        \<longrightarrow> getHeader ''Authorization'' (req_headers (outgoing p))
              = Some (''Bearer '' @ API_TOKEN c1)"
    using server_forwarded [of c1 req p] tusProxy_authorization [of c1 req] by blast
  from run_addressed [of rt ts evs w]
       system_run_addressed [of c1 rt ts origin sevs st]
       system_run_client [of c1 rt ts origin sevs st c2]
       system_run_upstream [of c1 rt ts origin sevs st]
       injected
  show ?thesis by blast
qed

theorem credential_stays_in_server_witness:
  "\<not> addressed example_handmade
   \<and> server \<lparr>ACCOUNT_ID = ''acct'', API_TOKEN = ''token-one''\<rparr> example_request
     = Forwarded (tusProxy \<lparr>ACCOUNT_ID = ''acct'', API_TOKEN = ''token-one''\<rparr> example_request)
   \<and> getHeader ''Authorization'' (req_headers example_request) = Some ''Basic Zm9v''
   \<and> map (\<lambda>p. getHeader ''Authorization'' (req_headers (outgoing p)))
        (snd (snd (system_run \<lparr>ACCOUNT_ID = ''acct'', API_TOKEN = ''token-one''\<rparr>
           example_runtime ''2026-11-2_5-31-0'' proxy_origin example_events initial_system)))
     = [Some ''Bearer token-one'', Some ''Bearer token-one'']
   \<and> map (\<lambda>p. getHeader ''Authorization'' (req_headers (outgoing p)))
        (snd (snd (system_run \<lparr>ACCOUNT_ID = ''acct'', API_TOKEN = ''token-two''\<rparr>
           example_runtime ''2026-11-2_5-31-0'' proxy_origin example_events initial_system)))
     = [Some ''Bearer token-two'', Some ''Bearer token-two'']
   \<and> fst (snd (system_run \<lparr>ACCOUNT_ID = ''acct'', API_TOKEN = ''token-one''\<rparr>
           example_runtime ''2026-11-2_5-31-0'' proxy_origin example_events initial_system))
     = fst (snd (system_run \<lparr>ACCOUNT_ID = ''acct'', API_TOKEN = ''token-two''\<rparr>
           example_runtime ''2026-11-2_5-31-0'' proxy_origin example_events initial_system))
   \<and> fst (snd (system_run \<lparr>ACCOUNT_ID = ''acct'', API_TOKEN = ''token-one''\<rparr>
           example_runtime ''2026-11-2_5-31-0'' proxy_origin example_events initial_system))
     = [ConsoleLog [''clip 1.mp4'', ''FILENAME >>>>>>>>>>>>''],
        TusNew example_upload, TusStart example_upload,
        Fetch ''/api/upload/status?filename=2026-11-2_5-31-0%20-%20clip%201.mp4'' None]"
proof -
  have f: "server \<lparr>ACCOUNT_ID = ''acct'', API_TOKEN = ''token-one''\<rparr> example_request
     = Forwarded (tusProxy \<lparr>ACCOUNT_ID = ''acct'', API_TOKEN = ''token-one''\<rparr> example_request)"
    by code_simp
  have own: "getHeader ''Authorization'' (req_headers example_request) = Some ''Basic Zm9v''"
    by code_simp
  have hand: "\<not> addressed example_handmade"
    by code_simp
  have one: "map (\<lambda>p. getHeader ''Authorization'' (req_headers (outgoing p)))
        (snd (snd (system_run \<lparr>ACCOUNT_ID = ''acct'', API_TOKEN = ''token-one''\<rparr>
           example_runtime ''2026-11-2_5-31-0'' proxy_origin example_events initial_system)))
     = [Some ''Bearer token-one'', Some ''Bearer token-one'']"
    by code_simp
  have two: "map (\<lambda>p. getHeader ''Authorization'' (req_headers (outgoing p)))
        (snd (snd (system_run \<lparr>ACCOUNT_ID = ''acct'', API_TOKEN = ''token-two''\<rparr>
           example_runtime ''2026-11-2_5-31-0'' proxy_origin example_events initial_system)))
     = [Some ''Bearer token-two'', Some ''Bearer token-two'']"
    by code_simp
  have did: "fst (snd (system_run \<lparr>ACCOUNT_ID = ''acct'', API_TOKEN = ''token-one''\<rparr>
           example_runtime ''2026-11-2_5-31-0'' proxy_origin example_events initial_system))
     = [ConsoleLog [''clip 1.mp4'', ''FILENAME >>>>>>>>>>>>''],
        TusNew example_upload, TusStart example_upload,
        Fetch ''/api/upload/status?filename=2026-11-2_5-31-0%20-%20clip%201.mp4'' None]"
    by code_simp
  from credential_stays_in_server
         [where ?c1.0 = "\<lparr>ACCOUNT_ID = ''acct'', API_TOKEN = ''token-one''\<rparr>"
            and ?c2.0 = "\<lparr>ACCOUNT_ID = ''acct'', API_TOKEN = ''token-two''\<rparr>"
            and rt = example_runtime and ts = "''2026-11-2_5-31-0''" and origin = proxy_origin
            and sevs = example_events and st = initial_system and req = example_request
            and p = "tusProxy \<lparr>ACCOUNT_ID = ''acct'', API_TOKEN = ''token-one''\<rparr> example_request"]
       f own hand one two did
  show ?thesis by simp
qed

subsection \<open>The progress callback\<close>

lemma round2_mono: "x \<le> y \<Longrightarrow> round2 x \<le> round2 y"
  unfolding round2_def by (simp add: divide_right_mono floor_mono)

lemma round2_0: "round2 0 = 0"
  by (simp add: round2_def)

lemma round2_100: "round2 100 = 100"
proof -
  have "\<lfloor>(100::real) * 100 + 1 / 2\<rfloor> = 10000"
    by linarith
  then show ?thesis by (simp add: round2_def)
qed

lemma round2_bounds: "0 \<le> x \<Longrightarrow> x \<le> 100 \<Longrightarrow> 0 \<le> round2 x \<and> round2 x \<le> 100"
  using round2_mono [of 0 x] round2_mono [of x 100] by (simp add: round2_0 round2_100)

lemma digit_chars: "list_all (\<lambda>k. digit_value (''0123456789'' ! k) = k \<and> ''0123456789'' ! k \<noteq> CHR ''.'') [0..<10]"
  by code_simp

lemma digit_char: "k < 10 \<Longrightarrow> digit_value (''0123456789'' ! k) = k \<and> ''0123456789'' ! k \<noteq> CHR ''.''"
  using digit_chars by (simp add: list_all_iff)

lemma nat_of_digits_snoc: "nat_of_digits (t @ [c]) = 10 * nat_of_digits t + digit_value c"
  by (simp add: nat_of_digits_def)

lemma string_of_nat_read: "nat_of_digits (string_of_nat n) = n \<and> CHR ''.'' \<notin> set (string_of_nat n)"
proof (induction n rule: string_of_nat.induct)
  case (1 n)
  show ?case
  proof (cases "n < 10")
    case True
    then have "string_of_nat n = [''0123456789'' ! n]"
      by (subst string_of_nat.simps) simp
    with True digit_char [of n] show ?thesis
      by (auto simp: nat_of_digits_def)
  next
    case False
    with "1.IH" have ih: "nat_of_digits (string_of_nat (n div 10)) = n div 10"
      "CHR ''.'' \<notin> set (string_of_nat (n div 10))"
      by simp_all
    have d: "digit_value (''0123456789'' ! (n mod 10)) = n mod 10"
      "''0123456789'' ! (n mod 10) \<noteq> CHR ''.''"
      using digit_char [of "n mod 10"] by simp_all
    have unfold: "string_of_nat n = string_of_nat (n div 10) @ [''0123456789'' ! (n mod 10)]"
      using False by (subst string_of_nat.simps) simp
    from ih d show ?thesis
      by (simp only: unfold nat_of_digits_snoc) auto
  qed
qed

lemma hundredths: "10 * (10 * (n div 100) + n div 10 mod 10) + n mod 10 = (n::nat)"
proof -
  have "n div 100 = n div 10 div 10"
    by (simp add: div_mult2_eq)
  then show ?thesis
    by simp
qed

lemma read_decimal2: "read_decimal2 (decimal2 n) = real n / 100"
proof -
  have whole: "nat_of_digits (string_of_nat (n div 100)) = n div 100"
    and nodot: "CHR ''.'' \<notin> set (string_of_nat (n div 100))"
    using string_of_nat_read [of "n div 100"] by simp_all
  have d1: "digit_value (''0123456789'' ! (n div 10 mod 10)) = n div 10 mod 10"
    and e1: "''0123456789'' ! (n div 10 mod 10) \<noteq> CHR ''.''"
    using digit_char [of "n div 10 mod 10"] by simp_all
  have d0: "digit_value (''0123456789'' ! (n mod 10)) = n mod 10"
    and e0: "''0123456789'' ! (n mod 10) \<noteq> CHR ''.''"
    using digit_char [of "n mod 10"] by simp_all
  from nodot have keep: "filter (\<lambda>c. c \<noteq> CHR ''.'') (string_of_nat (n div 100))
                           = string_of_nat (n div 100)"
    by (auto simp: filter_id_conv)
  have "filter (\<lambda>c. c \<noteq> CHR ''.'') (decimal2 n)
          = (string_of_nat (n div 100) @ [''0123456789'' ! (n div 10 mod 10)])
            @ [''0123456789'' ! (n mod 10)]"
    unfolding decimal2_def using keep e1 e0 by simp
  then have "nat_of_digits (filter (\<lambda>c. c \<noteq> CHR ''.'') (decimal2 n))
          = 10 * (10 * nat_of_digits (string_of_nat (n div 100))
                  + digit_value (''0123456789'' ! (n div 10 mod 10)))
            + digit_value (''0123456789'' ! (n mod 10))"
    by (simp only: nat_of_digits_snoc)
  then have "nat_of_digits (filter (\<lambda>c. c \<noteq> CHR ''.'') (decimal2 n)) = n"
    by (simp only: whole d1 d0 hundredths)
  then show ?thesis
    by (simp only: read_decimal2_def)
qed

lemma exact_runtime_like: "binary64_like (\<lambda>x. x) exact_runtime"
proof -
  have rd: "Number exact_runtime (toFixed exact_runtime (Finite x) 2) = Finite (round2 x)"
    if "0 \<le> x" for x
  proof -
    from that have "0 \<le> \<lfloor>x * 100 + 1 / 2\<rfloor>"
      by simp
    then have "real (nat \<lfloor>x * 100 + 1 / 2\<rfloor>) = of_int \<lfloor>x * 100 + 1 / 2\<rfloor>"
      by simp
    with that show ?thesis
      by (simp add: exact_runtime_def read_decimal2 round2_def)
  qed
  show ?thesis
    unfolding binary64_like_def
    by (auto simp: rd mono_def) (simp_all add: exact_runtime_def)
qed

lemma round2_1015: "round2 (1015 / 100000 * 100) = 102 / 100"
proof -
  have "\<lfloor>(1015::real) / 100000 * 100 * 100 + 1 / 2\<rfloor> = 102" by linarith
  then show ?thesis by (simp add: round2_def)
qed

text \<open>
  C6, as stated, fails in its first half: the progress is not always the exact percentage
  rounded to two decimal places. At \<^verbatim>\<open>onProgress(1015, 100000)\<close> the exact percentage is
  1.015, which rounds to 1.02; the binary64 product is just below 1.015, so the text is
  \<^verbatim>\<open>1.01\<close> and the progress is the number read from it.
\<close>

theorem progress_not_exact_rounding:
  "progress (fst (onProgress binary64_at_1015 (Finite 1015) (Finite 100000) initial_state))
     = Finite (4548635623644201 / 2 ^ 52)
   \<and> uploadStatus (fst (onProgress binary64_at_1015 (Finite 1015) (Finite 100000) initial_state))
     = ''Uploading: 1.01%''
   \<and> round2 (1015 / 100000 * 100) = 102 / 100
   \<and> (4548635623644201 / 2 ^ 52 :: real) < 102 / 100 - 9 / 1000"
  using round2_1015
  by (simp add: onProgress_def binary64_at_1015_def Let_def)

text \<open>
  C6, amended. \<open>onProgress\<close> stores the number the runtime reads from the text
  \<^verbatim>\<open>((bytesUploaded / bytesTotal) * 100).toFixed(2)\<close> and sets the status to \<^verbatim>\<open>Uploading: \<close>,
  that text and \<^verbatim>\<open>%\<close>. With \<open>0 \<le> bytesUploaded \<le> bytesTotal\<close> and \<open>0 < bytesTotal\<close>, in a
  runtime whose results are rounded by \<open>rnd\<close>, the progress is the rounded product of
  the rounded quotient with 100, rounded to two decimal places and read back, and it lies
  between 0 and 100.
\<close>

theorem progress_percentage:
  assumes rt: "binary64_like rnd rt"
    and a: "0 \<le> bytesUploaded" and ab: "bytesUploaded \<le> bytesTotal" and b: "0 < bytesTotal"
  shows "progress (fst (onProgress rt (Finite bytesUploaded) (Finite bytesTotal) s))
           = Finite (rnd (round2 (rnd (rnd (bytesUploaded / bytesTotal) * 100))))
       \<and> 0 \<le> rnd (round2 (rnd (rnd (bytesUploaded / bytesTotal) * 100)))
       \<and> rnd (round2 (rnd (rnd (bytesUploaded / bytesTotal) * 100))) \<le> 100
       \<and> uploadStatus (fst (onProgress rt (Finite bytesUploaded) (Finite bytesTotal) s))
           = ''Uploading: '' @ percentage_text rt (Finite bytesUploaded) (Finite bytesTotal) @ ''%''
       \<and> progress (fst (onProgress rt x y s)) = Number rt (percentage_text rt x y)
       \<and> uploadStatus (fst (onProgress rt x y s)) = ''Uploading: '' @ percentage_text rt x y @ ''%''"
proof -
  from rt have m: "mono rnd" and r0: "rnd 0 = 0" and r1: "rnd 1 = 1" and r100: "rnd 100 = 100"
    and dv: "\<And>a b. 0 \<le> a \<Longrightarrow> a \<le> b \<Longrightarrow> 0 < b
               \<Longrightarrow> num_div rt (Finite a) (Finite b) = Finite (rnd (a / b))"
    and ml: "\<And>x. 0 \<le> x \<Longrightarrow> x \<le> 1
               \<Longrightarrow> num_mul rt (Finite x) (Finite 100) = Finite (rnd (x * 100))"
    and rd: "\<And>x. 0 \<le> x \<Longrightarrow> x \<le> 100
               \<Longrightarrow> Number rt (toFixed rt (Finite x) 2) = Finite (rnd (round2 x))"
    by (simp_all add: binary64_like_def)
  define q where "q = rnd (bytesUploaded / bytesTotal)"
  define p where "p = rnd (q * 100)"
  from a ab b have "0 \<le> bytesUploaded / bytesTotal" "bytesUploaded / bytesTotal \<le> 1"
    by simp_all
  with m r0 r1 have q: "0 \<le> q" "q \<le> 1"
    unfolding q_def by (metis monoD)+
  then have "0 \<le> q * 100" "q * 100 \<le> 100"
    by simp_all
  with m r0 r100 have p: "0 \<le> p" "p \<le> 100"
    unfolding p_def by (metis monoD)+
  from round2_bounds [OF p] have "0 \<le> round2 p" "round2 p \<le> 100"
    by simp_all
  with m r0 r100 have bounds: "0 \<le> rnd (round2 p)" "rnd (round2 p) \<le> 100"
    by (metis monoD)+
  have printed: "percentage_text rt (Finite bytesUploaded) (Finite bytesTotal) = toFixed rt (Finite p) 2"
    using dv [OF a ab b] ml [OF q] by (simp add: percentage_text_def q_def p_def)
  have wiring: "progress (fst (onProgress rt u v s)) = Number rt (percentage_text rt u v)"
    "uploadStatus (fst (onProgress rt u v s)) = ''Uploading: '' @ percentage_text rt u v @ ''%''"
    for u v
    by (simp_all add: onProgress_def percentage_text_def Let_def)
  have stored: "progress (fst (onProgress rt (Finite bytesUploaded) (Finite bytesTotal) s))
                  = Finite (rnd (round2 p))"
    using wiring(1) printed rd [OF p] by simp
  from stored bounds wiring show ?thesis
    unfolding p_def q_def by blast
qed

theorem progress_percentage_witness:
  "binary64_like (\<lambda>x. x) exact_runtime
   \<and> (0::real) \<le> 52428800 \<and> (52428800::real) \<le> 104857600 \<and> (0::real) < 104857600
   \<and> progress (fst (onProgress exact_runtime (Finite 52428800) (Finite 104857600) initial_state))
       = Finite 50"
proof -
  have h: "(0::real) \<le> 52428800" "(52428800::real) \<le> 104857600" "(0::real) < 104857600"
    by simp_all
  have "\<lfloor>(50::real) * 100 + 1 / 2\<rfloor> = 5000"
    by linarith
  then have r: "round2 (52428800 / 104857600 * 100) = 50"
    by (simp add: round2_def)
  from conjunct1 [OF progress_percentage [OF exact_runtime_like h, of initial_state]]
  have "progress (fst (onProgress exact_runtime (Finite 52428800) (Finite 104857600) initial_state))
       = Finite (round2 (52428800 / 104857600 * 100))"
    .
  with r exact_runtime_like h show ?thesis
    by simp
qed

end
